theory Spec2Isabelle
  imports Main "HOL-Library.Word"
begin

unbundle bit_operations_syntax

section \<open>The platform: types and constants of the C library headers\<close>

text \<open>
  \<^verbatim>\<open>SerialStreamBuf.cc\<close> is written against \<^verbatim>\<open><termios.h>\<close>, \<^verbatim>\<open><fcntl.h>\<close> and
  \<^verbatim>\<open><unistd.h>\<close>. The integer types are those of Linux: \<^verbatim>\<open>tcflag_t\<close> and \<^verbatim>\<open>speed_t\<close>
  are 32-bit unsigned, \<^verbatim>\<open>cc_t\<close> and \<^verbatim>\<open>char\<close> are bytes. File descriptors, file status
  flags and \<^verbatim>\<open>ssize_t\<close>/\<^verbatim>\<open>std::streamsize\<close> counts are \<open>int\<close>; none of the arithmetic on
  them in this file can overflow (the only operations are \<open>+ 1\<close>, \<open>- 1\<close> and bit masks).
\<close>

type_synonym tcflag_t = "32 word"
type_synonym speed_t = "32 word"
type_synonym cc_t = "8 word"
type_synonym char_type = "8 word"
type_synonym int_type = int

text \<open>
  \<^verbatim>\<open>struct termios\<close>. The control-character array \<^verbatim>\<open>c_cc[NCCS]\<close> is read and written only
  at the constant indices \<^verbatim>\<open>VMIN\<close>, \<^verbatim>\<open>VTIME\<close>, \<^verbatim>\<open>VSTART\<close> and \<^verbatim>\<open>VSTOP\<close>, all below
  \<^verbatim>\<open>NCCS\<close>, so it is a total function from the index to the byte stored there.
\<close>

record termios =
  c_iflag :: tcflag_t
  c_oflag :: tcflag_t
  c_cflag :: tcflag_t
  c_lflag :: tcflag_t
  c_line :: cc_t
  c_cc :: "nat \<Rightarrow> cc_t"
  c_ispeed :: speed_t
  c_ospeed :: speed_t

text \<open>\<^verbatim>\<open>memset(&port_settings, 0, sizeof(port_settings))\<close>\<close>

definition termios_zero :: termios where
  "termios_zero = \<lparr>c_iflag = 0, c_oflag = 0, c_cflag = 0, c_lflag = 0, c_line = 0,
                   c_cc = (\<lambda>_. 0), c_ispeed = 0, c_ospeed = 0\<rparr>"

text \<open>Input flags (values of Linux \<^verbatim>\<open>termbits.h\<close>, octal in the header).\<close>

definition IGNBRK :: tcflag_t where "IGNBRK = 1"
definition IGNPAR :: tcflag_t where "IGNPAR = 4"
definition INPCK :: tcflag_t where "INPCK = 16"
definition ISTRIP :: tcflag_t where "ISTRIP = 32"
definition IXON :: tcflag_t where "IXON = 1024"
definition IXOFF :: tcflag_t where "IXOFF = 4096"

text \<open>Control flags.\<close>

definition CSIZE :: tcflag_t where "CSIZE = 48"
definition CS5 :: tcflag_t where "CS5 = 0"
definition CS6 :: tcflag_t where "CS6 = 16"
definition CS7 :: tcflag_t where "CS7 = 32"
definition CS8 :: tcflag_t where "CS8 = 48"
definition CSTOPB :: tcflag_t where "CSTOPB = 64"
definition CREAD :: tcflag_t where "CREAD = 128"
definition PARENB :: tcflag_t where "PARENB = 256"
definition PARODD :: tcflag_t where "PARODD = 512"
definition CLOCAL :: tcflag_t where "CLOCAL = 2048"
definition CRTSCTS :: tcflag_t where "CRTSCTS = 2147483648"
definition B115200 :: speed_t where "B115200 = 4098"

text \<open>Indices into \<^verbatim>\<open>c_cc\<close>, and the value that disables a control character.\<close>

definition VTIME :: nat where "VTIME = 5"
definition VMIN :: nat where "VMIN = 6"
definition VSTART :: nat where "VSTART = 8"
definition VSTOP :: nat where "VSTOP = 9"
definition POSIX_VDISABLE :: cc_t where "POSIX_VDISABLE = 0"

text \<open>\<^verbatim>\<open>open\<close> flags, and the queue selectors of \<^verbatim>\<open>tcflush\<close>.\<close>

definition O_RDONLY :: int where "O_RDONLY = 0"
definition O_WRONLY :: int where "O_WRONLY = 1"
definition O_RDWR :: int where "O_RDWR = 2"
definition O_NOCTTY :: int where "O_NOCTTY = 256"
definition O_NONBLOCK :: int where "O_NONBLOCK = 2048"

definition TCIFLUSH :: int where "TCIFLUSH = 0"
definition TCOFLUSH :: int where "TCOFLUSH = 1"
definition TCIOFLUSH :: int where "TCIOFLUSH = 2"

text \<open>
  \<^verbatim>\<open>std::char_traits<char>\<close>: \<^verbatim>\<open>int_type\<close> is \<^verbatim>\<open>int\<close>, \<^verbatim>\<open>eof()\<close> is \<open>-1\<close>,
  \<^verbatim>\<open>to_int_type\<close> goes through \<^verbatim>\<open>unsigned char\<close>, \<^verbatim>\<open>to_char_type\<close> keeps the low byte,
  and \<^verbatim>\<open>not_eof(c)\<close> is \<^verbatim>\<open>c\<close> unless \<^verbatim>\<open>c\<close> is \<^verbatim>\<open>eof()\<close>.
\<close>

definition eof :: int_type where "eof = -1"

definition eq_int_type :: "int_type \<Rightarrow> int_type \<Rightarrow> bool" where
  "eq_int_type a b = (a = b)"

definition to_int_type :: "char_type \<Rightarrow> int_type" where
  "to_int_type c = uint c"

definition to_char_type :: "int_type \<Rightarrow> char_type" where
  "to_char_type i = word_of_int i"

definition not_eof :: "int_type \<Rightarrow> int_type" where
  "not_eof i = (if eq_int_type i eof then 0 else i)"

text \<open>\<^verbatim>\<open>std::ios_base::openmode\<close> is a bitmask type: a set of the six mode flags.\<close>

datatype ios_flag = ios_app | ios_ate | ios_binary | ios_in | ios_out | ios_trunc

type_synonym openmode = "ios_flag set"

section \<open>The operating system as a parameter\<close>

text \<open>
  Every system call the source makes is a field of the record \<open>'k os\<close>, a function of the
  call's arguments and of the kernel state \<open>'k\<close> that returns the call's result and the
  next kernel state. The theorems hold for every such record; what one of them needs
  from the kernel's answers is written as a hypothesis of it.
  \<^item> \<^verbatim>\<open>read\<close> answers \<open>None\<close> for \<open>-1\<close> and \<open>Some bs\<close> for the bytes transferred;
  \<^item> \<^verbatim>\<open>tcgetattr\<close> answers \<open>None\<close> for a negative result and \<open>Some t\<close> for the
    structure it filled in;
  \<^item> \<^verbatim>\<open>ioctl(fd, FIONREAD, &n)\<close> answers its result and the count it stored;
  \<^item> the other calls answer their \<^verbatim>\<open>int\<close> result;
  \<^item> the speed functions of the C library work on the structure alone.
\<close>

record 'k os =
  os_open :: "string \<Rightarrow> int \<Rightarrow> 'k \<Rightarrow> int \<times> 'k"
  os_close :: "int \<Rightarrow> 'k \<Rightarrow> int \<times> 'k"
  os_read :: "int \<Rightarrow> nat \<Rightarrow> 'k \<Rightarrow> char_type list option \<times> 'k"
  os_write :: "int \<Rightarrow> char_type list \<Rightarrow> 'k \<Rightarrow> int \<times> 'k"
  os_tcgetattr :: "int \<Rightarrow> 'k \<Rightarrow> termios option \<times> 'k"
  os_tcsetattr :: "int \<Rightarrow> termios \<Rightarrow> 'k \<Rightarrow> int \<times> 'k"
  os_tcflush :: "int \<Rightarrow> int \<Rightarrow> 'k \<Rightarrow> int \<times> 'k"
  os_fcntl_getfl :: "int \<Rightarrow> 'k \<Rightarrow> int \<times> 'k"
  os_fcntl_setfl :: "int \<Rightarrow> int \<Rightarrow> 'k \<Rightarrow> int \<times> 'k"
  os_ioctl_fionread :: "int \<Rightarrow> 'k \<Rightarrow> (int \<times> int) \<times> 'k"
  os_cfsetspeed :: "termios \<Rightarrow> speed_t \<Rightarrow> int \<times> termios"
  os_cfsetospeed :: "termios \<Rightarrow> speed_t \<Rightarrow> int \<times> termios"
  os_cfgetispeed :: "termios \<Rightarrow> speed_t"
  os_cfgetospeed :: "termios \<Rightarrow> speed_t"

text \<open>The system calls issued, in order, with their arguments.\<close>

datatype syscall =
    SYS_open string int
  | SYS_close int
  | SYS_read int nat
  | SYS_write int "char_type list"
  | SYS_tcgetattr int
  | SYS_tcsetattr int termios
  | SYS_tcflush int int
  | SYS_fcntl_getfl int
  | SYS_fcntl_setfl int int
  | SYS_ioctl_fionread int

section \<open>The object and its environment\<close>

text \<open>
  The four data members of \<^verbatim>\<open>SerialStreamBuf::Implementation\<close>, under their names, together
  with the kernel state and the trace of system calls issued so far.
\<close>

record 'k machine =
  mPutbackAvailable :: bool
  mPutbackChar :: char_type
  mFileDescriptor :: int
  mOldPortSettings :: termios
  kernel :: 'k
  trace :: "syscall list"

text \<open>The exception classes thrown by the source (their message strings are left out).\<close>

datatype error = NotOpen | AlreadyOpen | OpenFailed | runtime_error | invalid_argument

subsection \<open>System calls on the machine\<close>

text \<open>Each wrapper asks the kernel, moves to the kernel's next state and logs the call.\<close>

definition issue :: "syscall \<Rightarrow> 'k \<Rightarrow> 'k machine \<Rightarrow> 'k machine" where
  "issue c k s = s\<lparr>kernel := k, trace := trace s @ [c]\<rparr>"

definition sys_open :: "'k os \<Rightarrow> string \<Rightarrow> int \<Rightarrow> 'k machine \<Rightarrow> int \<times> 'k machine" where
  "sys_open os path flags s =
     (case os_open os path flags (kernel s) of (r, k) \<Rightarrow> (r, issue (SYS_open path flags) k s))"

definition sys_close :: "'k os \<Rightarrow> int \<Rightarrow> 'k machine \<Rightarrow> int \<times> 'k machine" where
  "sys_close os fd s =
     (case os_close os fd (kernel s) of (r, k) \<Rightarrow> (r, issue (SYS_close fd) k s))"

text \<open>
  \<^verbatim>\<open>read(fd, buf, count)\<close> transfers at most \<open>count\<close> bytes and returns their number, or
  \<open>-1\<close>. The wrapper returns that number and the bytes stored at \<^verbatim>\<open>buf\<close>.
\<close>

definition sys_read ::
  "'k os \<Rightarrow> int \<Rightarrow> int \<Rightarrow> 'k machine \<Rightarrow> (int \<times> char_type list) \<times> 'k machine" where
  "sys_read os fd count s =
     (case os_read os fd (nat count) (kernel s) of
        (None, k) \<Rightarrow> ((-1, []), issue (SYS_read fd (nat count)) k s)
      | (Some bs, k) \<Rightarrow>
          ((int (length (take (nat count) bs)), take (nat count) bs),
           issue (SYS_read fd (nat count)) k s))"

definition sys_write :: "'k os \<Rightarrow> int \<Rightarrow> char_type list \<Rightarrow> 'k machine \<Rightarrow> int \<times> 'k machine" where
  "sys_write os fd bs s =
     (case os_write os fd bs (kernel s) of (r, k) \<Rightarrow> (r, issue (SYS_write fd bs) k s))"

definition sys_tcgetattr :: "'k os \<Rightarrow> int \<Rightarrow> 'k machine \<Rightarrow> termios option \<times> 'k machine" where
  "sys_tcgetattr os fd s =
     (case os_tcgetattr os fd (kernel s) of (r, k) \<Rightarrow> (r, issue (SYS_tcgetattr fd) k s))"

definition sys_tcsetattr :: "'k os \<Rightarrow> int \<Rightarrow> termios \<Rightarrow> 'k machine \<Rightarrow> int \<times> 'k machine" where
  "sys_tcsetattr os fd t s =
     (case os_tcsetattr os fd t (kernel s) of (r, k) \<Rightarrow> (r, issue (SYS_tcsetattr fd t) k s))"

definition sys_tcflush :: "'k os \<Rightarrow> int \<Rightarrow> int \<Rightarrow> 'k machine \<Rightarrow> int \<times> 'k machine" where
  "sys_tcflush os fd q s =
     (case os_tcflush os fd q (kernel s) of (r, k) \<Rightarrow> (r, issue (SYS_tcflush fd q) k s))"

definition sys_fcntl_getfl :: "'k os \<Rightarrow> int \<Rightarrow> 'k machine \<Rightarrow> int \<times> 'k machine" where
  "sys_fcntl_getfl os fd s =
     (case os_fcntl_getfl os fd (kernel s) of (r, k) \<Rightarrow> (r, issue (SYS_fcntl_getfl fd) k s))"

definition sys_fcntl_setfl :: "'k os \<Rightarrow> int \<Rightarrow> int \<Rightarrow> 'k machine \<Rightarrow> int \<times> 'k machine" where
  "sys_fcntl_setfl os fd fl s =
     (case os_fcntl_setfl os fd fl (kernel s) of
        (r, k) \<Rightarrow> (r, issue (SYS_fcntl_setfl fd fl) k s))"

definition sys_ioctl_fionread :: "'k os \<Rightarrow> int \<Rightarrow> 'k machine \<Rightarrow> (int \<times> int) \<times> 'k machine" where
  "sys_ioctl_fionread os fd s =
     (case os_ioctl_fionread os fd (kernel s) of
        (r, k) \<Rightarrow> (r, issue (SYS_ioctl_fionread fd) k s))"

section \<open>The unbuffered stream adapter\<close>

definition IsOpen :: "'k machine \<Rightarrow> bool" where
  "IsOpen s = (-1 \<noteq> mFileDescriptor s)"

text \<open>
  \<^verbatim>\<open>xsputn(s, n)\<close>: the buffer is the list of bytes at \<^verbatim>\<open>s\<close>; the write is handed its
  first \<open>n\<close> bytes.
\<close>

definition xsputn ::
  "'k os \<Rightarrow> char_type list \<Rightarrow> int \<Rightarrow> 'k machine \<Rightarrow> (error + int) \<times> 'k machine" where
  "xsputn os buf n s =
     (if \<not> IsOpen s then (Inl NotOpen, s)
      else if n \<le> 0 then (Inr 0, s)
      else
        (case sys_write os (mFileDescriptor s) (take (nat n) buf) s of
           (retval, s1) \<Rightarrow>
             if retval \<le> 0 then (Inr 0, s1)
             else (Inr retval, s1)))"

text \<open>
  \<^verbatim>\<open>xsgetn(s, n)\<close> returns the count and the bytes it stored at \<^verbatim>\<open>s\<close>, from position 0.
  \<^verbatim>\<open>retval\<close> starts at \<open>-1\<close>; with a putback character it is incremented once, and, when
  \<open>n > 1\<close>, overwritten by the result of \<^verbatim>\<open>read\<close> and incremented unless that is \<open>-1\<close>.
\<close>

definition xsgetn ::
  "'k os \<Rightarrow> int \<Rightarrow> 'k machine \<Rightarrow> (error + int \<times> char_type list) \<times> 'k machine" where
  "xsgetn os n s =
     (if \<not> IsOpen s then (Inl NotOpen, s)
      else if n \<le> 0 then (Inr (0, []), s)
      else if mPutbackAvailable s then
        (let s0 = [mPutbackChar s];
             retval = (-1 :: int) + 1;
             s1 = s\<lparr>mPutbackAvailable := False\<rparr>
         in if n > 1 then
              (case sys_read os (mFileDescriptor s1) (n - 1) s1 of
                 ((r, bs), s2) \<Rightarrow>
                   (let retval = (if r \<noteq> -1 then r + 1 else r)
                    in if retval \<le> 0 then (Inr (0, s0 @ bs), s2)
                       else (Inr (retval, s0 @ bs), s2)))
            else if retval \<le> 0 then (Inr (0, s0), s1)
            else (Inr (retval, s0), s1))
      else
        (case sys_read os (mFileDescriptor s) n s of
           ((retval, bs), s1) \<Rightarrow>
             if retval \<le> 0 then (Inr (0, bs), s1)
             else (Inr (retval, bs), s1)))"

definition overflow :: "'k os \<Rightarrow> int_type \<Rightarrow> 'k machine \<Rightarrow> (error + int_type) \<times> 'k machine" where
  "overflow os character s =
     (if \<not> IsOpen s then (Inl NotOpen, s)
      else if eq_int_type character eof then (Inr eof, s)
      else
        (let out_ch = to_char_type character
         in case sys_write os (mFileDescriptor s) [out_ch] s of
              (retval, s1) \<Rightarrow>
                if retval \<le> 0 then (Inr eof, s1)
                else (Inr (not_eof character), s1)))"

text \<open>
  \<^verbatim>\<open>underflow\<close>: \<^verbatim>\<open>next_ch\<close> is 0 until the read stores a byte in it. The last branch (a
  result of \<^verbatim>\<open>read\<close> that is neither 1 nor at most 0) falls through to the final return.
\<close>

definition underflow :: "'k os \<Rightarrow> 'k machine \<Rightarrow> (error + int_type) \<times> 'k machine" where
  "underflow os s =
     (if \<not> IsOpen s then (Inl NotOpen, s)
      else if mPutbackAvailable s then (Inr (to_int_type (mPutbackChar s)), s)
      else
        (case sys_read os (mFileDescriptor s) 1 s of
           ((retval, bs), s1) \<Rightarrow>
             (let next_ch = (case bs of [] \<Rightarrow> 0 | b # _ \<Rightarrow> b)
              in if retval = 1 then
                   (Inr (to_int_type next_ch),
                    s1\<lparr>mPutbackChar := next_ch, mPutbackAvailable := True\<rparr>)
                 else if retval \<le> 0 then (Inr eof, s1)
                 else (Inr (to_int_type next_ch), s1))))"

definition uflow :: "'k os \<Rightarrow> 'k machine \<Rightarrow> (error + int_type) \<times> 'k machine" where
  "uflow os s =
     (if \<not> IsOpen s then (Inl NotOpen, s)
      else
        (case underflow os s of
           (Inl e, s1) \<Rightarrow> (Inl e, s1)
         | (Inr next_ch, s1) \<Rightarrow> (Inr next_ch, s1\<lparr>mPutbackAvailable := False\<rparr>)))"

definition pbackfail :: "int_type \<Rightarrow> 'k machine \<Rightarrow> (error + int_type) \<times> 'k machine" where
  "pbackfail character s =
     (if \<not> IsOpen s then (Inl NotOpen, s)
      else if mPutbackAvailable s then (Inr eof, s)
      else if eq_int_type character eof then (Inr eof, s)
      else
        (Inr (not_eof character),
         s\<lparr>mPutbackChar := to_char_type character, mPutbackAvailable := True\<rparr>))"

text \<open>
  \<^verbatim>\<open>showmanyc\<close>: the read stores into \<^verbatim>\<open>mPutbackChar\<close> itself, so the member changes
  exactly when a byte was transferred.
\<close>

definition showmanyc :: "'k os \<Rightarrow> 'k machine \<Rightarrow> (error + int) \<times> 'k machine" where
  "showmanyc os s =
     (if \<not> IsOpen s then (Inl NotOpen, s)
      else if mPutbackAvailable s then (Inr 1, s)
      else
        (case sys_fcntl_getfl os (mFileDescriptor s) s of
           (flags, s1) \<Rightarrow>
             (case sys_fcntl_setfl os (mFileDescriptor s1) (flags OR O_NONBLOCK) s1 of
                (r1, s2) \<Rightarrow>
                  if r1 < 0 then (Inr (-1), s2)
                  else
                    (case sys_read os (mFileDescriptor s2) 1 s2 of
                       ((retval, bs), s3) \<Rightarrow>
                         (let s4 = (case bs of [] \<Rightarrow> s3 | b # _ \<Rightarrow> s3\<lparr>mPutbackChar := b\<rparr>);
                              s5 = (if retval = 1 then s4\<lparr>mPutbackAvailable := True\<rparr> else s4);
                              retval = (if retval = 1 then retval else 0)
                          in case sys_fcntl_setfl os (mFileDescriptor s5) flags s5 of
                               (r2, s6) \<Rightarrow>
                                 if r2 < 0 then (Inr (-1), s6)
                                 else (Inr retval, s6))))))"

section \<open>The configuration manager\<close>

subsection \<open>Enumerations and defaults of the library's header\<close>

text \<open>
  Modelled from the spec: the enumerations \<^verbatim>\<open>FlowControl\<close>, \<^verbatim>\<open>Parity\<close> and \<^verbatim>\<open>StopBits\<close>
  of the library's constants header, which is not among the sources. The spec lists the
  symbolic values and the defaults; \<^verbatim>\<open>FLOW_CONTROL_INVALID\<close> and \<^verbatim>\<open>PARITY_INVALID\<close> are
  named by the source file itself. \<^verbatim>\<open>STOP_BITS_INVALID\<close> stands for "any other value" of
  the spec, which a C++ enumeration variable can hold and which reaches the \<^verbatim>\<open>default:\<close>
  branch of the setter.
\<close>

datatype FlowControl =
  FLOW_CONTROL_HARDWARE | FLOW_CONTROL_SOFTWARE | FLOW_CONTROL_NONE | FLOW_CONTROL_INVALID

datatype Parity = PARITY_EVEN | PARITY_ODD | PARITY_NONE | PARITY_INVALID

datatype StopBits = STOP_BITS_1 | STOP_BITS_2 | STOP_BITS_INVALID

definition FLOW_CONTROL_DEFAULT :: FlowControl where
  "FLOW_CONTROL_DEFAULT = FLOW_CONTROL_NONE"

definition PARITY_DEFAULT :: Parity where
  "PARITY_DEFAULT = PARITY_NONE"

definition STOP_BITS_DEFAULT :: StopBits where
  "STOP_BITS_DEFAULT = STOP_BITS_1"

text \<open>
  Modelled from the spec: \<^verbatim>\<open>CharacterSize\<close> and \<^verbatim>\<open>BaudRate\<close> of the same missing header.
  The source converts them to and from the platform's encodings by plain casts
  (\<^verbatim>\<open>static_cast<tcflag_t>(characterSize)\<close>, \<^verbatim>\<open>(speed_t)baudRate\<close>,
  \<^verbatim>\<open>BaudRate(input_baud)\<close>), so a value of either type is its encoding. The spec gives
  8 bits as the default size and 115200 baud as the rate of the default baseline;
  \<^verbatim>\<open>BAUD_INVALID\<close> is the sentinel outside the catalogue of rates.
\<close>

type_synonym CharacterSize = tcflag_t
type_synonym BaudRate = speed_t

definition CHAR_SIZE_5 :: CharacterSize where "CHAR_SIZE_5 = CS5"
definition CHAR_SIZE_6 :: CharacterSize where "CHAR_SIZE_6 = CS6"
definition CHAR_SIZE_7 :: CharacterSize where "CHAR_SIZE_7 = CS7"
definition CHAR_SIZE_8 :: CharacterSize where "CHAR_SIZE_8 = CS8"
definition CHAR_SIZE_DEFAULT :: CharacterSize where "CHAR_SIZE_DEFAULT = CHAR_SIZE_8"

definition BAUD_115200 :: BaudRate where "BAUD_115200 = B115200"
definition BAUD_DEFAULT :: BaudRate where "BAUD_DEFAULT = BAUD_115200"
definition BAUD_INVALID :: BaudRate where "BAUD_INVALID = - 1"

text \<open>
  Modelled from the spec: the defaults of \<^verbatim>\<open>VMIN\<close> and \<^verbatim>\<open>VTIME\<close> (0 for both) and the
  XON/XOFF codes of the missing header; the source's comments give the latter as
  \<^verbatim>\<open>0x11\<close> and \<^verbatim>\<open>0x13\<close>.
\<close>

definition VMIN_DEFAULT :: int where "VMIN_DEFAULT = 0"
definition VTIME_DEFAULT :: int where "VTIME_DEFAULT = 0"
definition CTRL_Q :: cc_t where "CTRL_Q = 17"
definition CTRL_S :: cc_t where "CTRL_S = 19"

subsection \<open>Sequencing operations that may throw\<close>

definition and_then ::
  "('s \<Rightarrow> (error + 'a) \<times> 's) \<Rightarrow> ('a \<Rightarrow> 's \<Rightarrow> (error + 'b) \<times> 's) \<Rightarrow> 's \<Rightarrow> (error + 'b) \<times> 's" where
  "and_then m f s = (case m s of (Inl e, s1) \<Rightarrow> (Inl e, s1) | (Inr a, s1) \<Rightarrow> f a s1)"

subsection \<open>Construction\<close>

text \<open>The default constructor: no putback character, file descriptor \<open>-1\<close>.\<close>

definition Implementation :: "'k \<Rightarrow> 'k machine" where
  "Implementation k =
     \<lparr>mPutbackAvailable = False, mPutbackChar = 0, mFileDescriptor = -1,
      mOldPortSettings = termios_zero, kernel = k, trace = []\<rparr>"

subsection \<open>Flushing, blocking mode, availability\<close>

definition FlushInputBuffer :: "'k os \<Rightarrow> 'k machine \<Rightarrow> (error + unit) \<times> 'k machine" where
  "FlushInputBuffer os s =
     (if \<not> IsOpen s then (Inl NotOpen, s)
      else
        (case sys_tcflush os (mFileDescriptor s) TCIFLUSH s of
           (r, s1) \<Rightarrow> if r < 0 then (Inl runtime_error, s1) else (Inr (), s1)))"

definition FlushOutputBuffer :: "'k os \<Rightarrow> 'k machine \<Rightarrow> (error + unit) \<times> 'k machine" where
  "FlushOutputBuffer os s =
     (if \<not> IsOpen s then (Inl NotOpen, s)
      else
        (case sys_tcflush os (mFileDescriptor s) TCOFLUSH s of
           (r, s1) \<Rightarrow> if r < 0 then (Inl runtime_error, s1) else (Inr (), s1)))"

definition FlushIOBuffers :: "'k os \<Rightarrow> 'k machine \<Rightarrow> (error + unit) \<times> 'k machine" where
  "FlushIOBuffers os s =
     (if \<not> IsOpen s then (Inl NotOpen, s)
      else
        (case sys_tcflush os (mFileDescriptor s) TCIOFLUSH s of
           (r, s1) \<Rightarrow> if r < 0 then (Inl runtime_error, s1) else (Inr (), s1)))"

definition SetPortBlockingStatus ::
  "'k os \<Rightarrow> bool \<Rightarrow> 'k machine \<Rightarrow> (error + unit) \<times> 'k machine" where
  "SetPortBlockingStatus os blockingStatus s =
     (case sys_fcntl_getfl os (mFileDescriptor s) s of
        (flags, s1) \<Rightarrow>
          if blockingStatus = True then
            (case sys_fcntl_setfl os (mFileDescriptor s1) (flags AND NOT O_NONBLOCK) s1 of
               (r, s2) \<Rightarrow> if r < 0 then (Inl runtime_error, s2) else (Inr (), s2))
          else
            (case sys_fcntl_setfl os (mFileDescriptor s1) (flags OR O_NONBLOCK) s1 of
               (r, s2) \<Rightarrow> if r < 0 then (Inl runtime_error, s2) else (Inr (), s2)))"

definition GetPortBlockingStatus :: "'k os \<Rightarrow> 'k machine \<Rightarrow> bool \<times> 'k machine" where
  "GetPortBlockingStatus os s =
     (case sys_fcntl_getfl os (mFileDescriptor s) s of
        (flags1, s1) \<Rightarrow>
          (let flags2 = flags1 OR O_NONBLOCK
           in if flags1 = flags2 then (True, s1) else (False, s1)))"

definition IsDataAvailable :: "'k os \<Rightarrow> 'k machine \<Rightarrow> (error + bool) \<times> 'k machine" where
  "IsDataAvailable os s =
     (if \<not> IsOpen s then (Inl NotOpen, s)
      else
        (case sys_ioctl_fionread os (mFileDescriptor s) s of
           ((result, num_of_bytes_available), s1) \<Rightarrow>
             if result \<ge> 0 \<and> num_of_bytes_available > 0 then (Inr True, s1)
             else (Inr False, s1)))"

definition GetFileDescriptor :: "'k machine \<Rightarrow> (error + int) \<times> 'k machine" where
  "GetFileDescriptor s =
     (if \<not> IsOpen s then (Inl NotOpen, s) else (Inr (mFileDescriptor s), s))"

subsection \<open>Baud rate\<close>

definition SetBaudRate :: "'k os \<Rightarrow> BaudRate \<Rightarrow> 'k machine \<Rightarrow> (error + unit) \<times> 'k machine" where
  "SetBaudRate os baudRate s =
     (if \<not> IsOpen s then (Inl NotOpen, s)
      else
        (case sys_tcgetattr os (mFileDescriptor s) s of
           (None, s1) \<Rightarrow> (Inl runtime_error, s1)
         | (Some port_settings, s1) \<Rightarrow>
             (case os_cfsetspeed os port_settings baudRate of
                (r1, port_settings1) \<Rightarrow>
                  if r1 < 0 then (Inl runtime_error, s1)
                  else
                    (case os_cfsetospeed os port_settings1 baudRate of
                       (r2, port_settings2) \<Rightarrow>
                         if r2 < 0 then (Inl runtime_error, s1)
                         else
                           (case sys_tcsetattr os (mFileDescriptor s1) port_settings2 s1 of
                              (r, s2) \<Rightarrow>
                                if r < 0 then (Inl runtime_error, s2)
                                else (Inr (), s2))))))"

definition GetBaudRate :: "'k os \<Rightarrow> 'k machine \<Rightarrow> (error + BaudRate) \<times> 'k machine" where
  "GetBaudRate os s =
     (if \<not> IsOpen s then (Inl NotOpen, s)
      else
        (case sys_tcgetattr os (mFileDescriptor s) s of
           (None, s1) \<Rightarrow> (Inl runtime_error, s1)
         | (Some port_settings, s1) \<Rightarrow>
             (let input_baud = os_cfgetispeed os port_settings;
                  output_baud = os_cfgetospeed os port_settings
              in if input_baud \<noteq> output_baud then (Inl runtime_error, s1)
                 else (Inr input_baud, s1))))"

subsection \<open>Character size\<close>

definition SetCharacterSize ::
  "'k os \<Rightarrow> CharacterSize \<Rightarrow> 'k machine \<Rightarrow> (error + unit) \<times> 'k machine" where
  "SetCharacterSize os characterSize s =
     (if \<not> IsOpen s then (Inl NotOpen, s)
      else
        (case sys_tcgetattr os (mFileDescriptor s) s of
           (None, s1) \<Rightarrow> (Inl runtime_error, s1)
         | (Some port_settings, s1) \<Rightarrow>
             (let port_settings1 =
                    (if characterSize = CHAR_SIZE_8
                     then port_settings\<lparr>c_iflag := c_iflag port_settings AND NOT ISTRIP\<rparr>
                     else port_settings\<lparr>c_iflag := c_iflag port_settings OR ISTRIP\<rparr>);
                  port_settings2 =
                    port_settings1\<lparr>c_cflag := c_cflag port_settings1 AND NOT CSIZE\<rparr>;
                  port_settings3 =
                    port_settings2\<lparr>c_cflag := c_cflag port_settings2 OR characterSize\<rparr>
              in case sys_tcsetattr os (mFileDescriptor s1) port_settings3 s1 of
                   (r, s2) \<Rightarrow>
                     if r < 0 then (Inl runtime_error, s2)
                     else (Inr (), s2))))"

definition GetCharacterSize ::
  "'k os \<Rightarrow> 'k machine \<Rightarrow> (error + CharacterSize) \<times> 'k machine" where
  "GetCharacterSize os s =
     (if \<not> IsOpen s then (Inl NotOpen, s)
      else
        (case sys_tcgetattr os (mFileDescriptor s) s of
           (None, s1) \<Rightarrow> (Inl runtime_error, s1)
         | (Some port_settings, s1) \<Rightarrow> (Inr (c_cflag port_settings AND CSIZE), s1)))"

subsection \<open>Flow control\<close>

definition SetFlowControl ::
  "'k os \<Rightarrow> FlowControl \<Rightarrow> 'k machine \<Rightarrow> (error + unit) \<times> 'k machine" where
  "SetFlowControl os flowControlType s =
     (if \<not> IsOpen s then (Inl NotOpen, s)
      else
        (case sys_tcflush os (mFileDescriptor s) TCIOFLUSH s of
           (r0, s0) \<Rightarrow>
             if r0 < 0 then (Inl OpenFailed, s0)
             else
               (case sys_tcgetattr os (mFileDescriptor s0) s0 of
                  (None, s1) \<Rightarrow> (Inl runtime_error, s1)
                | (Some port_settings, s1) \<Rightarrow>
                    (case
                       (case flowControlType of
                          FLOW_CONTROL_HARDWARE \<Rightarrow>
                            Inr (port_settings
                                  \<lparr>c_iflag := c_iflag port_settings AND NOT (IXON OR IXOFF),
                                   c_cflag := c_cflag port_settings OR CRTSCTS,
                                   c_cc := (c_cc port_settings)
                                             (VSTART := POSIX_VDISABLE, VSTOP := POSIX_VDISABLE)\<rparr>)
                        | FLOW_CONTROL_SOFTWARE \<Rightarrow>
                            Inr (port_settings
                                  \<lparr>c_iflag := c_iflag port_settings OR (IXON OR IXOFF),
                                   c_cflag := c_cflag port_settings AND NOT CRTSCTS,
                                   c_cc := (c_cc port_settings)
                                             (VSTART := CTRL_Q, VSTOP := CTRL_S)\<rparr>)
                        | FLOW_CONTROL_NONE \<Rightarrow>
                            Inr (port_settings
                                  \<lparr>c_iflag := c_iflag port_settings AND NOT (IXON OR IXOFF),
                                   c_cflag := c_cflag port_settings AND NOT CRTSCTS\<rparr>)
                        | FLOW_CONTROL_INVALID \<Rightarrow> Inl invalid_argument)
                     of
                       Inl e \<Rightarrow> (Inl e, s1)
                     | Inr port_settings1 \<Rightarrow>
                         (case sys_tcsetattr os (mFileDescriptor s1) port_settings1 s1 of
                            (r, s2) \<Rightarrow>
                              if r < 0 then (Inl runtime_error, s2)
                              else (Inr (), s2))))))"

definition GetFlowControl :: "'k os \<Rightarrow> 'k machine \<Rightarrow> (error + FlowControl) \<times> 'k machine" where
  "GetFlowControl os s =
     (if \<not> IsOpen s then (Inl NotOpen, s)
      else
        (case sys_tcgetattr os (mFileDescriptor s) s of
           (None, s1) \<Rightarrow> (Inl runtime_error, s1)
         | (Some port_settings, s1) \<Rightarrow>
             if c_iflag port_settings AND IXON \<noteq> 0 \<and>
                c_iflag port_settings AND IXOFF \<noteq> 0 \<and>
                CTRL_Q = c_cc port_settings VSTART \<and>
                CTRL_S = c_cc port_settings VSTOP
             then (Inr FLOW_CONTROL_SOFTWARE, s1)
             else if \<not> (c_iflag port_settings AND IXON \<noteq> 0 \<or>
                         c_iflag port_settings AND IXOFF \<noteq> 0)
             then
               (if c_cflag port_settings AND CRTSCTS \<noteq> 0
                then (Inr FLOW_CONTROL_HARDWARE, s1)
                else (Inr FLOW_CONTROL_NONE, s1))
             else (Inr FLOW_CONTROL_INVALID, s1)))"

subsection \<open>Parity\<close>

definition SetParity :: "'k os \<Rightarrow> Parity \<Rightarrow> 'k machine \<Rightarrow> (error + unit) \<times> 'k machine" where
  "SetParity os parityType s =
     (if \<not> IsOpen s then (Inl NotOpen, s)
      else
        (case sys_tcgetattr os (mFileDescriptor s) s of
           (None, s1) \<Rightarrow> (Inl runtime_error, s1)
         | (Some port_settings, s1) \<Rightarrow>
             (case
                (case parityType of
                   PARITY_EVEN \<Rightarrow>
                     Inr (port_settings
                           \<lparr>c_cflag := (c_cflag port_settings OR PARENB) AND NOT PARODD,
                            c_iflag := c_iflag port_settings OR INPCK\<rparr>)
                 | PARITY_ODD \<Rightarrow>
                     Inr (port_settings
                           \<lparr>c_cflag := (c_cflag port_settings OR PARENB) OR PARODD,
                            c_iflag := c_iflag port_settings OR INPCK\<rparr>)
                 | PARITY_NONE \<Rightarrow>
                     Inr (port_settings
                           \<lparr>c_cflag := c_cflag port_settings AND NOT PARENB,
                            c_iflag := c_iflag port_settings OR IGNPAR\<rparr>)
                 | PARITY_INVALID \<Rightarrow> Inl invalid_argument)
              of
                Inl e \<Rightarrow> (Inl e, s1)
              | Inr port_settings1 \<Rightarrow>
                  (case sys_tcsetattr os (mFileDescriptor s1) port_settings1 s1 of
                     (r, s2) \<Rightarrow>
                       if r < 0 then (Inl runtime_error, s2)
                       else (Inr (), s2)))))"

text \<open>The final \<^verbatim>\<open>return Parity::PARITY_INVALID\<close> of the source follows an exhaustive
  \<^verbatim>\<open>if\<close>/\<^verbatim>\<open>else\<close> and is never reached.\<close>

definition GetParity :: "'k os \<Rightarrow> 'k machine \<Rightarrow> (error + Parity) \<times> 'k machine" where
  "GetParity os s =
     (if \<not> IsOpen s then (Inl NotOpen, s)
      else
        (case sys_tcgetattr os (mFileDescriptor s) s of
           (None, s1) \<Rightarrow> (Inl runtime_error, s1)
         | (Some port_settings, s1) \<Rightarrow>
             if c_cflag port_settings AND PARENB \<noteq> 0 then
               (if c_cflag port_settings AND PARODD \<noteq> 0
                then (Inr PARITY_ODD, s1)
                else (Inr PARITY_EVEN, s1))
             else (Inr PARITY_NONE, s1)))"

subsection \<open>Stop bits\<close>

definition SetNumberOfStopBits ::
  "'k os \<Rightarrow> StopBits \<Rightarrow> 'k machine \<Rightarrow> (error + unit) \<times> 'k machine" where
  "SetNumberOfStopBits os numberOfStopBits s =
     (if \<not> IsOpen s then (Inl NotOpen, s)
      else
        (case sys_tcgetattr os (mFileDescriptor s) s of
           (None, s1) \<Rightarrow> (Inl runtime_error, s1)
         | (Some port_settings, s1) \<Rightarrow>
             (case
                (case numberOfStopBits of
                   STOP_BITS_1 \<Rightarrow>
                     Inr (port_settings\<lparr>c_cflag := c_cflag port_settings AND NOT CSTOPB\<rparr>)
                 | STOP_BITS_2 \<Rightarrow>
                     Inr (port_settings\<lparr>c_cflag := c_cflag port_settings OR CSTOPB\<rparr>)
                 | STOP_BITS_INVALID \<Rightarrow> Inl invalid_argument)
              of
                Inl e \<Rightarrow> (Inl e, s1)
              | Inr port_settings1 \<Rightarrow>
                  (case sys_tcsetattr os (mFileDescriptor s1) port_settings1 s1 of
                     (r, s2) \<Rightarrow>
                       if r < 0 then (Inl runtime_error, s2)
                       else (Inr (), s2)))))"

definition GetNumberOfStopBits ::
  "'k os \<Rightarrow> 'k machine \<Rightarrow> (error + StopBits) \<times> 'k machine" where
  "GetNumberOfStopBits os s =
     (if \<not> IsOpen s then (Inl NotOpen, s)
      else
        (case sys_tcgetattr os (mFileDescriptor s) s of
           (None, s1) \<Rightarrow> (Inl runtime_error, s1)
         | (Some port_settings, s1) \<Rightarrow>
             if c_cflag port_settings AND CSTOPB \<noteq> 0
             then (Inr STOP_BITS_2, s1)
             else (Inr STOP_BITS_1, s1)))"

subsection \<open>VMIN and VTIME\<close>

text \<open>
  The argument is a \<^verbatim>\<open>short\<close>: any integer here, of which the range check lets
  \<open>0..255\<close> through; \<^verbatim>\<open>(cc_t)vmin\<close> keeps the low byte. The getters return the byte as
  a \<^verbatim>\<open>short\<close>.
\<close>

definition SetVMin :: "'k os \<Rightarrow> int \<Rightarrow> 'k machine \<Rightarrow> (error + unit) \<times> 'k machine" where
  "SetVMin os vmin s =
     (if \<not> IsOpen s then (Inl NotOpen, s)
      else if vmin < 0 \<or> vmin > 255 then (Inl invalid_argument, s)
      else
        (case sys_tcgetattr os (mFileDescriptor s) s of
           (None, s1) \<Rightarrow> (Inl runtime_error, s1)
         | (Some port_settings, s1) \<Rightarrow>
             (let port_settings1 =
                    port_settings\<lparr>c_cc := (c_cc port_settings)(VMIN := word_of_int vmin)\<rparr>
              in case sys_tcsetattr os (mFileDescriptor s1) port_settings1 s1 of
                   (r, s2) \<Rightarrow>
                     if r < 0 then (Inl runtime_error, s2)
                     else (Inr (), s2))))"

definition GetVMin :: "'k os \<Rightarrow> 'k machine \<Rightarrow> (error + int) \<times> 'k machine" where
  "GetVMin os s =
     (if \<not> IsOpen s then (Inl NotOpen, s)
      else
        (case sys_tcgetattr os (mFileDescriptor s) s of
           (None, s1) \<Rightarrow> (Inl runtime_error, s1)
         | (Some port_settings, s1) \<Rightarrow> (Inr (uint (c_cc port_settings VMIN)), s1)))"

definition SetVTime :: "'k os \<Rightarrow> int \<Rightarrow> 'k machine \<Rightarrow> (error + unit) \<times> 'k machine" where
  "SetVTime os vtime s =
     (if \<not> IsOpen s then (Inl NotOpen, s)
      else if vtime < 0 \<or> vtime > 255 then (Inl invalid_argument, s)
      else
        (case sys_tcgetattr os (mFileDescriptor s) s of
           (None, s1) \<Rightarrow> (Inl runtime_error, s1)
         | (Some port_settings, s1) \<Rightarrow>
             (let port_settings1 =
                    port_settings\<lparr>c_cc := (c_cc port_settings)(VTIME := word_of_int vtime)\<rparr>
              in case sys_tcsetattr os (mFileDescriptor s1) port_settings1 s1 of
                   (r, s2) \<Rightarrow>
                     if r < 0 then (Inl runtime_error, s2)
                     else (Inr (), s2))))"

definition GetVTime :: "'k os \<Rightarrow> 'k machine \<Rightarrow> (error + int) \<times> 'k machine" where
  "GetVTime os s =
     (if \<not> IsOpen s then (Inl NotOpen, s)
      else
        (case sys_tcgetattr os (mFileDescriptor s) s of
           (None, s1) \<Rightarrow> (Inl runtime_error, s1)
         | (Some port_settings, s1) \<Rightarrow> (Inr (uint (c_cc port_settings VTIME)), s1)))"

subsection \<open>Defaults and initialisation\<close>

definition SetParametersToDefault :: "'k os \<Rightarrow> 'k machine \<Rightarrow> (error + unit) \<times> 'k machine" where
  "SetParametersToDefault os s =
     (if \<not> IsOpen s then (Inl NotOpen, s)
      else
        (case sys_tcgetattr os (mFileDescriptor s) s of
           (None, s1) \<Rightarrow> (Inl runtime_error, s1)
         | (Some port_settings, s1) \<Rightarrow>
             (let port_settings1 =
                    port_settings
                      \<lparr>c_iflag := IGNBRK,
                       c_oflag := 0,
                       c_cflag := B115200 OR CS8 OR CLOCAL OR CREAD,
                       c_lflag := 0,
                       c_line := 0,
                       c_cc := (c_cc port_settings)(VMIN := 0, VTIME := 0)\<rparr>
              in case sys_tcsetattr os (mFileDescriptor s1) port_settings1 s1 of
                   (r, s2) \<Rightarrow>
                     if r < 0 then (Inl OpenFailed, s2)
                     else
                       and_then (SetBaudRate os BAUD_DEFAULT) (\<lambda>_.
                       and_then (SetCharacterSize os CHAR_SIZE_DEFAULT) (\<lambda>_.
                       and_then (SetFlowControl os FLOW_CONTROL_DEFAULT) (\<lambda>_.
                       and_then (SetParity os PARITY_DEFAULT) (\<lambda>_.
                       and_then (SetNumberOfStopBits os STOP_BITS_DEFAULT) (\<lambda>_.
                       and_then (SetVMin os VMIN_DEFAULT) (\<lambda>_.
                       SetVTime os VTIME_DEFAULT)))))) s2)))"

definition InitializeSerialPort :: "'k os \<Rightarrow> 'k machine \<Rightarrow> (error + unit) \<times> 'k machine" where
  "InitializeSerialPort os s =
     (if \<not> IsOpen s then (Inl NotOpen, s)
      else
        and_then (SetParametersToDefault os) (\<lambda>_.
        and_then (FlushIOBuffers os) (\<lambda>_.
        SetPortBlockingStatus os True)) s)"

subsection \<open>Open and Close\<close>

text \<open>
  \<^verbatim>\<open>Open\<close> stores the result of \<^verbatim>\<open>open\<close> in \<^verbatim>\<open>mFileDescriptor\<close> before testing it, and
  calls \<^verbatim>\<open>close\<close> on the negative value before throwing.
\<close>

definition Open ::
  "'k os \<Rightarrow> string \<Rightarrow> openmode \<Rightarrow> 'k machine \<Rightarrow> (error + unit) \<times> 'k machine" where
  "Open os filename openMode s =
     (if IsOpen s then (Inl AlreadyOpen, s)
      else
        (case
           (if openMode = {ios_in, ios_out} then Some (O_RDWR OR O_NOCTTY OR O_NONBLOCK)
            else if openMode = {ios_in} then Some (O_RDONLY OR O_NOCTTY OR O_NONBLOCK)
            else if openMode = {ios_out} then Some (O_WRONLY OR O_NOCTTY OR O_NONBLOCK)
            else None)
         of
           None \<Rightarrow> (Inr (), s)
         | Some flags \<Rightarrow>
             (case sys_open os filename flags s of
                (fd, s0) \<Rightarrow>
                  (let s1 = s0\<lparr>mFileDescriptor := fd\<rparr>
                   in if mFileDescriptor s1 < 0 then
                        (case sys_close os (mFileDescriptor s1) s1 of
                           (_, s2) \<Rightarrow> (Inl OpenFailed, s2))
                      else
                        (case sys_tcgetattr os (mFileDescriptor s1) s1 of
                           (None, s2) \<Rightarrow> (Inl OpenFailed, s2)
                         | (Some old, s2) \<Rightarrow>
                             (let s3 = s2\<lparr>mOldPortSettings := old\<rparr>;
                                  port_settings =
                                    termios_zero
                                      \<lparr>c_cflag := c_cflag termios_zero OR (CREAD OR CLOCAL),
                                       c_cc := (c_cc termios_zero)(VMIN := 0, VTIME := 0)\<rparr>
                              in case sys_tcsetattr os (mFileDescriptor s3) port_settings s3 of
                                   (r, s4) \<Rightarrow>
                                     if r < 0 then (Inl OpenFailed, s4)
                                     else
                                       and_then (FlushIOBuffers os) (\<lambda>_.
                                       InitializeSerialPort os) s4))))))"

definition Close :: "'k os \<Rightarrow> 'k machine \<Rightarrow> (error + unit) \<times> 'k machine" where
  "Close os s =
     (if \<not> IsOpen s then (Inl NotOpen, s)
      else
        (case sys_tcsetattr os (mFileDescriptor s) (mOldPortSettings s) s of
           (r1, s1) \<Rightarrow>
             if r1 < 0 then (Inl runtime_error, s1)
             else
               (case sys_close os (mFileDescriptor s1) s1 of
                  (r2, s2) \<Rightarrow>
                    if r2 < 0 then (Inl runtime_error, s2)
                    else (Inr (), s2\<lparr>mFileDescriptor := -1\<rparr>))))"

section \<open>A simulated device\<close>

text \<open>
  One concrete kernel, on which the theorems are run at concrete inputs: a loopback
  device. It keeps the line settings, the bytes queued for reading and the file status
  flags; every call succeeds, written bytes are queued for reading, and the speed
  functions accept the rates that fit the \<^verbatim>\<open>CBAUD\<close> mask. Kernels that fail are
  variants of it with one field replaced.
\<close>

record sim =
  sim_termios :: termios
  sim_rx :: "char_type list"
  sim_fl :: int

definition CBAUD :: tcflag_t where "CBAUD = 4111"

definition sim_setspeed :: "termios \<Rightarrow> speed_t \<Rightarrow> int \<times> termios" where
  "sim_setspeed t sp =
     (if sp AND NOT CBAUD = 0
      then (0, t\<lparr>c_cflag := (c_cflag t AND NOT CBAUD) OR sp, c_ispeed := sp, c_ospeed := sp\<rparr>)
      else (-1, t))"

definition loopback :: "sim os" where
  "loopback =
     \<lparr>os_open = (\<lambda>path flags k. (3, k\<lparr>sim_fl := flags\<rparr>)),
      os_close = (\<lambda>fd k. (0, k)),
      os_read = (\<lambda>fd n k. (Some (take n (sim_rx k)), k\<lparr>sim_rx := drop n (sim_rx k)\<rparr>)),
      os_write = (\<lambda>fd bs k. (int (length bs), k\<lparr>sim_rx := sim_rx k @ bs\<rparr>)),
      os_tcgetattr = (\<lambda>fd k. (Some (sim_termios k), k)),
      os_tcsetattr = (\<lambda>fd t k. (0, k\<lparr>sim_termios := t\<rparr>)),
      os_tcflush = (\<lambda>fd q k. (0, if q = TCOFLUSH then k else k\<lparr>sim_rx := []\<rparr>)),
      os_fcntl_getfl = (\<lambda>fd k. (sim_fl k, k)),
      os_fcntl_setfl = (\<lambda>fd fl k. (0, k\<lparr>sim_fl := fl\<rparr>)),
      os_ioctl_fionread = (\<lambda>fd k. ((0, int (length (sim_rx k))), k)),
      os_cfsetspeed = sim_setspeed,
      os_cfsetospeed = sim_setspeed,
      os_cfgetispeed = c_ispeed,
      os_cfgetospeed = c_ospeed\<rparr>"

text \<open>The device at rest, with the given bytes waiting to be read.\<close>

definition idle :: "char_type list \<Rightarrow> sim" where
  "idle bs = \<lparr>sim_termios = termios_zero, sim_rx = bs, sim_fl = 0\<rparr>"

text \<open>An open port on descriptor 3, with or without a putback character.\<close>

definition opened :: "'k \<Rightarrow> 'k machine" where
  "opened k = (Implementation k)\<lparr>mFileDescriptor := 3\<rparr>"

definition pending :: "char_type \<Rightarrow> 'k \<Rightarrow> 'k machine" where
  "pending c k = (opened k)\<lparr>mPutbackAvailable := True, mPutbackChar := c\<rparr>"

text \<open>Variants of the device: one whose reads fail, one whose writes fail, one whose
  flushes fail, one that refuses to change the file status flags, and the device at rest
  with given line settings.\<close>

definition write_fails :: "sim os" where
  "write_fails = loopback\<lparr>os_write := (\<lambda>fd bs k. (- 1, k))\<rparr>"

definition read_fails :: "sim os" where
  "read_fails = loopback\<lparr>os_read := (\<lambda>fd n k. (None, k))\<rparr>"

definition flush_fails :: "sim os" where
  "flush_fails = loopback\<lparr>os_tcflush := (\<lambda>fd q k. (- 1, k))\<rparr>"

definition setfl_fails :: "sim os" where
  "setfl_fails = loopback\<lparr>os_fcntl_setfl := (\<lambda>fd fl k. (- 1, k))\<rparr>"

definition configured :: "termios \<Rightarrow> sim" where
  "configured t = \<lparr>sim_termios = t, sim_rx = [], sim_fl = 0\<rparr>"

section \<open>Observations used by the theorems\<close>

text \<open>The putback slot of the data model: the flag and the byte.\<close>

definition PutbackSlot :: "'k machine \<Rightarrow> bool \<times> char_type" where
  "PutbackSlot s = (mPutbackAvailable s, mPutbackChar s)"

text \<open>All four data members of the object.\<close>

definition members :: "'k machine \<Rightarrow> bool \<times> char_type \<times> int \<times> termios" where
  "members s = (mPutbackAvailable s, mPutbackChar s, mFileDescriptor s, mOldPortSettings s)"

text \<open>The settings writes among the system calls of a trace.\<close>

fun is_tcsetattr :: "syscall \<Rightarrow> bool" where
  "is_tcsetattr (SYS_tcsetattr fd t) = True"
| "is_tcsetattr _ = False"

definition settings_writes :: "'k machine \<Rightarrow> syscall list" where
  "settings_writes s = filter is_tcsetattr (trace s)"

section \<open>Bulk read with a pending putback byte\<close>

lemmas sim_defs = loopback_def idle_def opened_def pending_def Implementation_def IsOpen_def
  read_fails_def write_fails_def flush_fails_def setfl_fails_def configured_def

text \<open>
  C1 (as amended). On an open port with a putback byte pending, \<^verbatim>\<open>xsgetn\<close> with \<open>n > 1\<close>
  stores the putback byte at position 0, empties the slot and issues exactly one read for
  \<open>n - 1\<close> bytes. The reported count is 1 plus the number of bytes that read returned when
  it succeeds (also when it returned none), and 0 when it fails, although the putback
  byte has been stored and consumed.
\<close>

theorem xsgetn_putback_count:
  assumes "IsOpen s" and "mPutbackAvailable s" and "1 < n"
    and "os_read os (mFileDescriptor s) (nat (n - 1)) (kernel s) = (res, k)"
  shows "xsgetn os n s =
           (Inr (case res of None \<Rightarrow> 0 | Some bs \<Rightarrow> 1 + int (length (take (nat (n - 1)) bs)),
                 mPutbackChar s # (case res of None \<Rightarrow> [] | Some bs \<Rightarrow> take (nat (n - 1)) bs)),
            s\<lparr>mPutbackAvailable := False, kernel := k,
              trace := trace s @ [SYS_read (mFileDescriptor s) (nat (n - 1))]\<rparr>)"
  using assms by (cases res) (simp_all add: xsgetn_def sys_read_def issue_def)

theorem xsgetn_putback_count_witness:
  "IsOpen (pending 65 (idle [66, 67, 68])) \<and> mPutbackAvailable (pending 65 (idle [66, 67, 68])) \<and>
   (1::int) < 3 \<and>
   fst (xsgetn loopback 3 (pending 65 (idle [66, 67, 68]))) = Inr (3, [65, 66, 67]) \<and>
   fst (xsgetn read_fails 3 (pending 65 (idle [66, 67, 68]))) = Inr (0, [65])"
  using xsgetn_putback_count [of "pending 65 (idle [66, 67, 68])" 3 loopback
      "Some [66, 67]" "(idle [66, 67, 68])\<lparr>sim_rx := [68]\<rparr>"]
    xsgetn_putback_count [of "pending 65 (idle [66, 67, 68])" 3 read_fails
      None "idle [66, 67, 68]"]
  by (simp add: sim_defs)

text \<open>
  The claim as stated promises a count of exactly 1 when the underlying read fails. With
  the byte 65 pending, \<open>n = 2\<close> and a read that fails, the byte is stored at position 0 and
  the count reported is 0.
\<close>

theorem xsgetn_read_failure_counterexample:
  "IsOpen (pending 65 (idle [])) \<and> mPutbackAvailable (pending 65 (idle [])) \<and>
   fst (os_read read_fails 3 1 (idle [])) = None \<and>
   fst (xsgetn read_fails 2 (pending 65 (idle []))) = Inr (0, [65])"
  by (simp add: xsgetn_def sys_read_def issue_def sim_defs)

text \<open>The call with \<open>n = 1\<close> and the byte 65 pending, evaluated.\<close>

lemma xsgetn_single_putback:
  "fst (xsgetn loopback 1 (pending 65 (idle [66]))) = Inr (0, [65])"
  by (simp add: xsgetn_def sim_defs)

section \<open>Peeking and consuming reads\<close>

lemma underflow_open_cases:
  assumes "IsOpen s"
  shows "underflow os s =
    (if mPutbackAvailable s then (Inr (to_int_type (mPutbackChar s)), s)
     else case os_read os (mFileDescriptor s) 1 (kernel s) of
        (Some (b # bs), k) \<Rightarrow>
          (Inr (to_int_type b),
           s\<lparr>kernel := k, trace := trace s @ [SYS_read (mFileDescriptor s) 1],
             mPutbackChar := b, mPutbackAvailable := True\<rparr>)
      | (_, k) \<Rightarrow>
          (Inr eof, s\<lparr>kernel := k, trace := trace s @ [SYS_read (mFileDescriptor s) 1]\<rparr>))"
  using assms
  by (auto simp: underflow_def sys_read_def issue_def split: prod.splits option.splits list.splits)

text \<open>On an open port \<^verbatim>\<open>underflow\<close> always returns a value: it throws nothing.\<close>

lemma underflow_open_returns:
  assumes "IsOpen s"
  shows "\<exists>c s1. underflow os s = (Inr c, s1)"
  using assms
  by (auto simp: underflow_open_cases split: prod.splits option.splits list.splits)

lemma to_int_type_not_eof: "to_int_type b \<noteq> eof"
  unfolding to_int_type_def eof_def using uint_nonnegative [of b] by linarith

text \<open>
  C2. On an open port, let \<^verbatim>\<open>underflow\<close> return \<open>c\<close> and leave the state \<open>s1\<close>. Then
  \<^verbatim>\<open>uflow\<close> from the same state returns the same \<open>c\<close> and leaves \<open>s1\<close> with the putback flag
  cleared, whether or not \<^verbatim>\<open>underflow\<close> had set it. If \<open>c\<close> is a byte (not end-of-stream),
  the putback flag is set in \<open>s1\<close> and the slot holds \<open>c\<close>; a second \<^verbatim>\<open>underflow\<close> returns
  \<open>c\<close> again and changes nothing (no system call), and a following \<^verbatim>\<open>uflow\<close> returns
  \<open>c\<close> and clears the flag.
\<close>

theorem underflow_peeks_uflow_consumes:
  assumes "IsOpen s" and "underflow os s = (Inr c, s1)"
  shows "uflow os s = (Inr c, s1\<lparr>mPutbackAvailable := False\<rparr>) \<and>
         (c \<noteq> eof \<longrightarrow>
            mPutbackAvailable s1 \<and> to_int_type (mPutbackChar s1) = c \<and>
            underflow os s1 = (Inr c, s1) \<and>
            uflow os s1 = (Inr c, s1\<lparr>mPutbackAvailable := False\<rparr>))"
proof -
  have u: "uflow os s = (Inr c, s1\<lparr>mPutbackAvailable := False\<rparr>)"
    using assms by (simp add: uflow_def)
  have s1: "c \<noteq> eof \<longrightarrow> mPutbackAvailable s1 \<and> to_int_type (mPutbackChar s1) = c \<and> IsOpen s1"
    using assms
    by (auto simp: underflow_open_cases IsOpen_def
        split: if_splits prod.splits option.splits list.splits)
  then have "c \<noteq> eof \<longrightarrow> underflow os s1 = (Inr c, s1)"
    by (simp add: underflow_open_cases)
  with s1 u show ?thesis
    by (simp add: uflow_def)
qed

theorem underflow_peeks_uflow_consumes_witness:
  "IsOpen (opened (idle [65, 66])) \<and>
   fst (underflow loopback (opened (idle [65, 66]))) = Inr 65 \<and>
   fst (underflow loopback (snd (underflow loopback (opened (idle [65, 66]))))) = Inr 65 \<and>
   mPutbackAvailable (snd (underflow loopback (opened (idle [65, 66])))) \<and>
   uflow loopback (snd (underflow loopback (opened (idle [65, 66])))) =
     (Inr 65, (snd (underflow loopback (opened (idle [65, 66]))))\<lparr>mPutbackAvailable := False\<rparr>)"
proof -
  have o: "IsOpen (opened (idle [65, 66]))" by (simp add: sim_defs)
  have r: "fst (underflow loopback (opened (idle [65, 66]))) = Inr 65"
    by (simp add: underflow_def sys_read_def issue_def sim_defs to_int_type_def)
  then have e: "underflow loopback (opened (idle [65, 66])) =
      (Inr 65, snd (underflow loopback (opened (idle [65, 66]))))"
    by (metis prod.collapse)
  show ?thesis
    using underflow_peeks_uflow_consumes [OF o e] o r by (simp add: eof_def)
qed

section \<open>Putback\<close>

text \<open>
  C3. On an open port \<^verbatim>\<open>pbackfail\<close> returns end-of-stream and changes nothing when a
  putback byte is already pending, and likewise when its argument is end-of-stream;
  otherwise it stores the low byte of the argument as the pending byte and returns the
  argument, which for an argument in \<open>0..255\<close> is the stored character.
\<close>

theorem pbackfail_one_slot:
  assumes "IsOpen s"
  shows "(mPutbackAvailable s \<longrightarrow> pbackfail c s = (Inr eof, s)) \<and>
         (c = eof \<longrightarrow> pbackfail c s = (Inr eof, s)) \<and>
         (\<not> mPutbackAvailable s \<and> c \<noteq> eof \<longrightarrow>
            pbackfail c s =
              (Inr c, s\<lparr>mPutbackChar := to_char_type c, mPutbackAvailable := True\<rparr>)) \<and>
         (0 \<le> c \<and> c < 256 \<longrightarrow> to_int_type (to_char_type c) = c)"
  using assms
  by (auto simp: pbackfail_def not_eof_def eq_int_type_def to_int_type_def to_char_type_def
      uint_word_of_int)

theorem pbackfail_one_slot_witness:
  "IsOpen (opened (idle [])) \<and> IsOpen (pending 66 (idle [])) \<and>
   pbackfail 65 (opened (idle [])) = (Inr 65, pending 65 (idle [])) \<and>
   pbackfail 65 (pending 66 (idle [])) = (Inr eof, pending 66 (idle [])) \<and>
   pbackfail eof (opened (idle [])) = (Inr eof, opened (idle []))"
  using pbackfail_one_slot [of "opened (idle [])" 65]
    pbackfail_one_slot [of "pending 66 (idle [])" 65]
    pbackfail_one_slot [of "opened (idle [])" eof]
  by (simp add: sim_defs eof_def to_char_type_def)

section \<open>Availability probe\<close>

text \<open>
  C4. On an open port, \<^verbatim>\<open>showmanyc\<close> with a putback byte pending returns 1 and leaves
  the state as it is: no system call is issued. Otherwise it reads the file status flags,
  sets them with \<^verbatim>\<open>O_NONBLOCK\<close> added and returns \<open>-1\<close> if that fails; else it reads one
  byte, stores a byte that arrived as the pending putback, sets the flags it had read
  again, and returns \<open>-1\<close> if that fails, 1 if a byte arrived and 0 if the read failed or
  returned nothing. The trace lists exactly these calls.
\<close>

theorem showmanyc_probe:
  assumes "IsOpen s"
    and "os_fcntl_getfl os (mFileDescriptor s) (kernel s) = (flags, k1)"
    and "os_fcntl_setfl os (mFileDescriptor s) (flags OR O_NONBLOCK) k1 = (r1, k2)"
    and "os_read os (mFileDescriptor s) 1 k2 = (res, k3)"
    and "os_fcntl_setfl os (mFileDescriptor s) flags k3 = (r2, k4)"
  shows "(mPutbackAvailable s \<longrightarrow> showmanyc os s = (Inr 1, s)) \<and>
         (\<not> mPutbackAvailable s \<and> r1 < 0 \<longrightarrow>
            showmanyc os s =
              (Inr (- 1),
               s\<lparr>kernel := k2,
                 trace := trace s @ [SYS_fcntl_getfl (mFileDescriptor s),
                                     SYS_fcntl_setfl (mFileDescriptor s) (flags OR O_NONBLOCK)]\<rparr>)) \<and>
         (\<not> mPutbackAvailable s \<and> 0 \<le> r1 \<longrightarrow>
            showmanyc os s =
              (Inr (if r2 < 0 then - 1
                    else case res of Some (b # bs) \<Rightarrow> 1 | _ \<Rightarrow> 0),
               (case res of
                  Some (b # bs) \<Rightarrow> s\<lparr>mPutbackChar := b, mPutbackAvailable := True\<rparr>
                | _ \<Rightarrow> s)
               \<lparr>kernel := k4,
                trace := trace s @ [SYS_fcntl_getfl (mFileDescriptor s),
                                    SYS_fcntl_setfl (mFileDescriptor s) (flags OR O_NONBLOCK),
                                    SYS_read (mFileDescriptor s) 1,
                                    SYS_fcntl_setfl (mFileDescriptor s) flags]\<rparr>))"
  using assms
  by (auto simp: showmanyc_def sys_read_def sys_fcntl_getfl_def sys_fcntl_setfl_def issue_def
      split: option.splits list.splits)

theorem showmanyc_probe_witness:
  "IsOpen (pending 65 (idle [66])) \<and> IsOpen (opened (idle [66])) \<and> IsOpen (opened (idle [])) \<and>
   showmanyc loopback (pending 65 (idle [66])) = (Inr 1, pending 65 (idle [66])) \<and>
   fst (showmanyc loopback (opened (idle [66]))) = Inr 1 \<and>
   PutbackSlot (snd (showmanyc loopback (opened (idle [66])))) = (True, 66) \<and>
   sim_fl (kernel (snd (showmanyc loopback (opened (idle [66]))))) = 0 \<and>
   fst (showmanyc loopback (opened (idle []))) = Inr 0 \<and>
   fst (showmanyc read_fails (opened (idle [66]))) = Inr 0 \<and>
   fst (showmanyc setfl_fails (opened (idle [66]))) = Inr (- 1) \<and>
   trace (snd (showmanyc setfl_fails (opened (idle [66])))) =
     [SYS_fcntl_getfl 3, SYS_fcntl_setfl 3 2048]"
  using showmanyc_probe [of "pending 65 (idle [66])" loopback 0 "idle [66]" 0
      "(idle [66])\<lparr>sim_fl := 2048\<rparr>" "Some [66]" "(idle [])\<lparr>sim_fl := 2048\<rparr>" 0 "idle []"]
    showmanyc_probe [of "opened (idle [66])" loopback 0 "idle [66]" 0
      "(idle [66])\<lparr>sim_fl := 2048\<rparr>" "Some [66]" "(idle [])\<lparr>sim_fl := 2048\<rparr>" 0 "idle []"]
    showmanyc_probe [of "opened (idle [])" loopback 0 "idle []" 0
      "(idle [])\<lparr>sim_fl := 2048\<rparr>" "Some []" "(idle [])\<lparr>sim_fl := 2048\<rparr>" 0 "idle []"]
    showmanyc_probe [of "opened (idle [66])" read_fails 0 "idle [66]" 0
      "(idle [66])\<lparr>sim_fl := 2048\<rparr>" None "(idle [66])\<lparr>sim_fl := 2048\<rparr>" 0 "idle [66]"]
    showmanyc_probe [of "opened (idle [66])" setfl_fails 0 "idle [66]" "- 1"
      "idle [66]" "Some [66]" "idle []" "- 1" "idle []"]
  by (simp add: sim_defs O_NONBLOCK_def PutbackSlot_def)

section \<open>Write path\<close>

text \<open>
  C9. On an open port, \<^verbatim>\<open>xsputn\<close> with \<open>n \<le> 0\<close> returns 0 and issues no call;
  otherwise it issues exactly one write and returns 0 when that write returns an error or
  zero, and the count returned otherwise. \<^verbatim>\<open>overflow\<close> given end-of-stream returns
  end-of-stream and writes nothing; given a character it issues one write of that byte and
  returns end-of-stream when the write fails or transfers nothing, and otherwise the
  character, which is not end-of-stream.
\<close>

theorem write_through:
  assumes "IsOpen s"
    and "os_write os (mFileDescriptor s) (take (nat n) buf) (kernel s) = (r, k)"
    and "os_write os (mFileDescriptor s) [to_char_type c] (kernel s) = (r', k')"
  shows "(n \<le> 0 \<longrightarrow> xsputn os buf n s = (Inr 0, s)) \<and>
         (0 < n \<longrightarrow>
            xsputn os buf n s =
              (Inr (if r \<le> 0 then 0 else r),
               s\<lparr>kernel := k,
                 trace := trace s @ [SYS_write (mFileDescriptor s) (take (nat n) buf)]\<rparr>)) \<and>
         overflow os eof s = (Inr eof, s) \<and>
         (c \<noteq> eof \<longrightarrow>
            overflow os c s =
              (Inr (if r' \<le> 0 then eof else c),
               s\<lparr>kernel := k',
                 trace := trace s @ [SYS_write (mFileDescriptor s) [to_char_type c]]\<rparr>) \<and>
            not_eof c = c \<and> not_eof c \<noteq> eof)"
  using assms
  by (auto simp: xsputn_def overflow_def sys_write_def issue_def eq_int_type_def not_eof_def)

theorem write_through_witness:
  "IsOpen (opened (idle [])) \<and>
   fst (xsputn loopback [65, 66] 0 (opened (idle []))) = Inr 0 \<and>
   trace (snd (xsputn loopback [65, 66] 0 (opened (idle [])))) = [] \<and>
   fst (xsputn loopback [65, 66] 2 (opened (idle []))) = Inr 2 \<and>
   trace (snd (xsputn loopback [65, 66] 2 (opened (idle [])))) = [SYS_write 3 [65, 66]] \<and>
   fst (xsputn write_fails [65, 66] 2 (opened (idle []))) = Inr 0 \<and>
   fst (overflow loopback 65 (opened (idle []))) = Inr 65 \<and>
   fst (overflow write_fails 65 (opened (idle []))) = Inr eof \<and>
   overflow loopback eof (opened (idle [])) = (Inr eof, opened (idle []))"
  using write_through [of "opened (idle [])" loopback 0 "[65, 66]" 0 "idle []" 65 1 "idle [65]"]
    write_through [of "opened (idle [])" loopback 2 "[65, 66]" 2 "idle [65, 66]" 65 1 "idle [65]"]
    write_through [of "opened (idle [])" write_fails 2 "[65, 66]" "- 1" "idle []" 65 "- 1" "idle []"]
  by (simp add: sim_defs write_fails_def eof_def to_char_type_def)

section \<open>Reading the flow control back\<close>

text \<open>
  C6. On an open port whose settings read succeeds with the structure \<open>t\<close>,
  \<^verbatim>\<open>GetFlowControl\<close> returns \<^verbatim>\<open>SOFTWARE\<close> when both \<^verbatim>\<open>IXON\<close> and \<^verbatim>\<open>IXOFF\<close> are set and
  the start and stop characters are \<^verbatim>\<open>CTRL_Q\<close> and \<^verbatim>\<open>CTRL_S\<close>; \<^verbatim>\<open>HARDWARE\<close> when neither
  bit is set and \<^verbatim>\<open>CRTSCTS\<close> is set; \<^verbatim>\<open>NONE\<close> when neither bit is set and \<^verbatim>\<open>CRTSCTS\<close> is
  clear; and \<^verbatim>\<open>INVALID\<close> in every other case.
\<close>

theorem GetFlowControl_mapping:
  assumes "IsOpen s"
    and "os_tcgetattr os (mFileDescriptor s) (kernel s) = (Some t, k)"
  shows "(c_iflag t AND IXON \<noteq> 0 \<and> c_iflag t AND IXOFF \<noteq> 0 \<and>
          c_cc t VSTART = CTRL_Q \<and> c_cc t VSTOP = CTRL_S \<longrightarrow>
            fst (GetFlowControl os s) = Inr FLOW_CONTROL_SOFTWARE) \<and>
         (c_iflag t AND IXON = 0 \<and> c_iflag t AND IXOFF = 0 \<and> c_cflag t AND CRTSCTS \<noteq> 0 \<longrightarrow>
            fst (GetFlowControl os s) = Inr FLOW_CONTROL_HARDWARE) \<and>
         (c_iflag t AND IXON = 0 \<and> c_iflag t AND IXOFF = 0 \<and> c_cflag t AND CRTSCTS = 0 \<longrightarrow>
            fst (GetFlowControl os s) = Inr FLOW_CONTROL_NONE) \<and>
         (\<not> (c_iflag t AND IXON \<noteq> 0 \<and> c_iflag t AND IXOFF \<noteq> 0 \<and>
             c_cc t VSTART = CTRL_Q \<and> c_cc t VSTOP = CTRL_S) \<and>
          \<not> (c_iflag t AND IXON = 0 \<and> c_iflag t AND IXOFF = 0) \<longrightarrow>
            fst (GetFlowControl os s) = Inr FLOW_CONTROL_INVALID)"
  using assms
  by (auto simp: GetFlowControl_def sys_tcgetattr_def issue_def)

theorem GetFlowControl_mapping_witness:
  "IsOpen (opened (configured termios_zero)) \<and>
   fst (GetFlowControl loopback
         (opened (configured (termios_zero\<lparr>c_iflag := IXON OR IXOFF,
                                           c_cc := (\<lambda>_. 0)(VSTART := CTRL_Q, VSTOP := CTRL_S)\<rparr>))))
     = Inr FLOW_CONTROL_SOFTWARE \<and>
   fst (GetFlowControl loopback (opened (configured (termios_zero\<lparr>c_cflag := CRTSCTS\<rparr>))))
     = Inr FLOW_CONTROL_HARDWARE \<and>
   fst (GetFlowControl loopback (opened (configured termios_zero))) = Inr FLOW_CONTROL_NONE \<and>
   fst (GetFlowControl loopback (opened (configured (termios_zero\<lparr>c_iflag := IXON\<rparr>))))
     = Inr FLOW_CONTROL_INVALID \<and>
   fst (GetFlowControl loopback (opened (configured (termios_zero\<lparr>c_iflag := IXON OR IXOFF\<rparr>))))
     = Inr FLOW_CONTROL_INVALID"
  using
    GetFlowControl_mapping [of
      "opened (configured (termios_zero\<lparr>c_iflag := IXON OR IXOFF,
                                        c_cc := (\<lambda>_. 0)(VSTART := CTRL_Q, VSTOP := CTRL_S)\<rparr>))"
      loopback
      "termios_zero\<lparr>c_iflag := IXON OR IXOFF, c_cc := (\<lambda>_. 0)(VSTART := CTRL_Q, VSTOP := CTRL_S)\<rparr>"
      "configured (termios_zero\<lparr>c_iflag := IXON OR IXOFF,
                                c_cc := (\<lambda>_. 0)(VSTART := CTRL_Q, VSTOP := CTRL_S)\<rparr>)"]
    GetFlowControl_mapping [of "opened (configured (termios_zero\<lparr>c_cflag := CRTSCTS\<rparr>))" loopback
      "termios_zero\<lparr>c_cflag := CRTSCTS\<rparr>" "configured (termios_zero\<lparr>c_cflag := CRTSCTS\<rparr>)"]
    GetFlowControl_mapping [of "opened (configured termios_zero)" loopback
      termios_zero "configured termios_zero"]
    GetFlowControl_mapping [of "opened (configured (termios_zero\<lparr>c_iflag := IXON\<rparr>))" loopback
      "termios_zero\<lparr>c_iflag := IXON\<rparr>" "configured (termios_zero\<lparr>c_iflag := IXON\<rparr>)"]
    GetFlowControl_mapping [of "opened (configured (termios_zero\<lparr>c_iflag := IXON OR IXOFF\<rparr>))"
      loopback "termios_zero\<lparr>c_iflag := IXON OR IXOFF\<rparr>"
      "configured (termios_zero\<lparr>c_iflag := IXON OR IXOFF\<rparr>)"]
  by (simp add: sim_defs termios_zero_def IXON_def IXOFF_def CRTSCTS_def CTRL_Q_def CTRL_S_def
      VSTART_def VSTOP_def)

section \<open>The open/closed state machine\<close>

lemma closed_ops:
  assumes "\<not> IsOpen s"
  shows "Close os s = (Inl NotOpen, s)"
    and "FlushInputBuffer os s = (Inl NotOpen, s)"
    and "FlushOutputBuffer os s = (Inl NotOpen, s)"
    and "FlushIOBuffers os s = (Inl NotOpen, s)"
    and "InitializeSerialPort os s = (Inl NotOpen, s)"
    and "IsDataAvailable os s = (Inl NotOpen, s)"
    and "SetParametersToDefault os s = (Inl NotOpen, s)"
    and "GetFileDescriptor s = (Inl NotOpen, s)"
  using assms
  by (simp_all add: Close_def FlushInputBuffer_def FlushOutputBuffer_def FlushIOBuffers_def
      InitializeSerialPort_def IsDataAvailable_def SetParametersToDefault_def GetFileDescriptor_def)

lemma closed_setters:
  assumes "\<not> IsOpen s"
  shows "SetBaudRate os b s = (Inl NotOpen, s)"
    and "SetCharacterSize os cs s = (Inl NotOpen, s)"
    and "SetFlowControl os fc s = (Inl NotOpen, s)"
    and "SetParity os p s = (Inl NotOpen, s)"
    and "SetNumberOfStopBits os sb s = (Inl NotOpen, s)"
    and "SetVMin os vmin s = (Inl NotOpen, s)"
    and "SetVTime os vtime s = (Inl NotOpen, s)"
  using assms
  by (simp_all add: SetBaudRate_def SetCharacterSize_def SetFlowControl_def SetParity_def
      SetNumberOfStopBits_def SetVMin_def SetVTime_def)

lemma closed_getters:
  assumes "\<not> IsOpen s"
  shows "GetBaudRate os s = (Inl NotOpen, s)"
    and "GetCharacterSize os s = (Inl NotOpen, s)"
    and "GetFlowControl os s = (Inl NotOpen, s)"
    and "GetParity os s = (Inl NotOpen, s)"
    and "GetNumberOfStopBits os s = (Inl NotOpen, s)"
    and "GetVMin os s = (Inl NotOpen, s)"
    and "GetVTime os s = (Inl NotOpen, s)"
  using assms
  by (simp_all add: GetBaudRate_def GetCharacterSize_def GetFlowControl_def GetParity_def
      GetNumberOfStopBits_def GetVMin_def GetVTime_def)

lemma closed_io:
  assumes "\<not> IsOpen s"
  shows "xsputn os buf n s = (Inl NotOpen, s)"
    and "xsgetn os n s = (Inl NotOpen, s)"
    and "overflow os c s = (Inl NotOpen, s)"
    and "underflow os s = (Inl NotOpen, s)"
    and "uflow os s = (Inl NotOpen, s)"
    and "pbackfail c s = (Inl NotOpen, s)"
    and "showmanyc os s = (Inl NotOpen, s)"
  using assms
  by (simp_all add: xsputn_def xsgetn_def overflow_def underflow_def uflow_def pbackfail_def
      showmanyc_def)

text \<open>
  C7. \<^verbatim>\<open>Open\<close> on an open instance \<open>s\<close> throws \<^verbatim>\<open>AlreadyOpen\<close>. On a closed instance
  \<open>s'\<close> (file descriptor \<open>-1\<close>), \<^verbatim>\<open>Close\<close> and every flush, getter, setter and I/O
  operation throws \<^verbatim>\<open>NotOpen\<close>. In each case the object, the kernel and the trace of system
  calls are unchanged.
\<close>

theorem state_machine_guards:
  assumes "IsOpen s" and "\<not> IsOpen s'"
  shows "Open os filename openMode s = (Inl AlreadyOpen, s) \<and>
         Close os s' = (Inl NotOpen, s') \<and>
         FlushInputBuffer os s' = (Inl NotOpen, s') \<and>
         FlushOutputBuffer os s' = (Inl NotOpen, s') \<and>
         FlushIOBuffers os s' = (Inl NotOpen, s') \<and>
         InitializeSerialPort os s' = (Inl NotOpen, s') \<and>
         IsDataAvailable os s' = (Inl NotOpen, s') \<and>
         SetParametersToDefault os s' = (Inl NotOpen, s') \<and>
         GetFileDescriptor s' = (Inl NotOpen, s') \<and>
         SetBaudRate os b s' = (Inl NotOpen, s') \<and>
         SetCharacterSize os cs s' = (Inl NotOpen, s') \<and>
         SetFlowControl os fc s' = (Inl NotOpen, s') \<and>
         SetParity os p s' = (Inl NotOpen, s') \<and>
         SetNumberOfStopBits os sb s' = (Inl NotOpen, s') \<and>
         SetVMin os vmin s' = (Inl NotOpen, s') \<and>
         SetVTime os vtime s' = (Inl NotOpen, s') \<and>
         GetBaudRate os s' = (Inl NotOpen, s') \<and>
         GetCharacterSize os s' = (Inl NotOpen, s') \<and>
         GetFlowControl os s' = (Inl NotOpen, s') \<and>
         GetParity os s' = (Inl NotOpen, s') \<and>
         GetNumberOfStopBits os s' = (Inl NotOpen, s') \<and>
         GetVMin os s' = (Inl NotOpen, s') \<and>
         GetVTime os s' = (Inl NotOpen, s') \<and>
         xsputn os buf n s' = (Inl NotOpen, s') \<and>
         xsgetn os n s' = (Inl NotOpen, s') \<and>
         overflow os c s' = (Inl NotOpen, s') \<and>
         underflow os s' = (Inl NotOpen, s') \<and>
         uflow os s' = (Inl NotOpen, s') \<and>
         pbackfail c s' = (Inl NotOpen, s') \<and>
         showmanyc os s' = (Inl NotOpen, s')"
  using assms(1) closed_ops [OF assms(2)] closed_setters [OF assms(2)]
    closed_getters [OF assms(2)] closed_io [OF assms(2)]
  by (simp add: Open_def)

theorem state_machine_guards_witness:
  "IsOpen (opened (idle [65])) \<and> \<not> IsOpen (Implementation (idle [65])) \<and>
   Open loopback ''/dev/ttyS0'' {ios_in, ios_out} (opened (idle [65])) =
     (Inl AlreadyOpen, opened (idle [65])) \<and>
   Close loopback (Implementation (idle [65])) = (Inl NotOpen, Implementation (idle [65])) \<and>
   GetBaudRate loopback (Implementation (idle [65])) = (Inl NotOpen, Implementation (idle [65])) \<and>
   SetVMin loopback 1 (Implementation (idle [65])) = (Inl NotOpen, Implementation (idle [65])) \<and>
   xsgetn loopback 1 (Implementation (idle [65])) = (Inl NotOpen, Implementation (idle [65]))"
proof -
  have o: "IsOpen (opened (idle [65]))" by (simp add: sim_defs)
  have c: "\<not> IsOpen (Implementation (idle [65]))" by (simp add: sim_defs)
  show ?thesis
    using state_machine_guards [OF o c, of loopback "''/dev/ttyS0''" "{ios_in, ios_out}"
        _ _ _ _ _ 1 _ _ 1] o c
    by simp
qed

section \<open>Opening with an unsupported mode\<close>

text \<open>
  C8. On a closed instance, \<^verbatim>\<open>Open\<close> with a mode other than exactly \<^verbatim>\<open>in | out\<close>,
  \<^verbatim>\<open>in\<close> or \<^verbatim>\<open>out\<close> returns normally and leaves the whole state as it was: no error,
  no system call in the trace, and the file descriptor still \<open>-1\<close>.
\<close>

theorem Open_unsupported_mode:
  assumes "\<not> IsOpen s"
    and "openMode \<noteq> {ios_in, ios_out}" and "openMode \<noteq> {ios_in}" and "openMode \<noteq> {ios_out}"
  shows "Open os filename openMode s = (Inr (), s) \<and> mFileDescriptor s = - 1"
  using assms by (simp add: Open_def IsOpen_def)

theorem Open_unsupported_mode_witness:
  "\<not> IsOpen (Implementation (idle [])) \<and>
   {ios_in, ios_out, ios_trunc} \<noteq> {ios_in, ios_out} \<and>
   {ios_in, ios_out, ios_trunc} \<noteq> {ios_in} \<and> {ios_in, ios_out, ios_trunc} \<noteq> {ios_out} \<and>
   Open loopback ''/dev/ttyS0'' {ios_in, ios_out, ios_trunc} (Implementation (idle [])) =
     (Inr (), Implementation (idle [])) \<and>
   trace (Implementation (idle [])) = [] \<and>
   mFileDescriptor (Implementation (idle [])) = - 1"
proof -
  have c: "\<not> IsOpen (Implementation (idle []))" by (simp add: sim_defs)
  have m: "{ios_in, ios_out, ios_trunc} \<noteq> {ios_in, ios_out}"
    "{ios_in, ios_out, ios_trunc} \<noteq> {ios_in}" "{ios_in, ios_out, ios_trunc} \<noteq> {ios_out}"
    by auto
  show ?thesis
    using Open_unsupported_mode [OF c m, of loopback "''/dev/ttyS0''"] c m
    by (simp add: Implementation_def)
qed

section \<open>Validation in the setters\<close>

lemma settings_writes_issue [simp]:
  "settings_writes (issue c k s) = settings_writes s @ (if is_tcsetattr c then [c] else [])"
  by (simp add: settings_writes_def issue_def)

lemma no_write_SetFlowControl:
  "settings_writes (snd (SetFlowControl os FLOW_CONTROL_INVALID s)) = settings_writes s"
  by (auto simp: SetFlowControl_def sys_tcflush_def sys_tcgetattr_def
      split: prod.splits option.splits)

lemma no_write_SetParity:
  "settings_writes (snd (SetParity os PARITY_INVALID s)) = settings_writes s"
  by (simp add: SetParity_def sys_tcgetattr_def split: prod.splits option.splits)

lemma no_write_SetNumberOfStopBits:
  "settings_writes (snd (SetNumberOfStopBits os STOP_BITS_INVALID s)) = settings_writes s"
  by (simp add: SetNumberOfStopBits_def sys_tcgetattr_def split: prod.splits option.splits)

lemma SetBaudRate_errors:
  "fst (SetBaudRate os b s) \<in> {Inr (), Inl NotOpen, Inl runtime_error}"
  by (simp add: SetBaudRate_def split: prod.splits option.splits)

lemma SetCharacterSize_errors:
  "fst (SetCharacterSize os cs s) \<in> {Inr (), Inl NotOpen, Inl runtime_error}"
  by (simp add: SetCharacterSize_def Let_def split: prod.splits option.splits)

text \<open>
  C5 (as amended). On an open port whose settings read succeeds with the structure \<open>t\<close>:
  \<^item> \<^verbatim>\<open>SetVMin(v)\<close> and \<^verbatim>\<open>SetVTime(v)\<close> for \<open>v\<close> in \<open>0..255\<close> succeed when the settings
    write succeeds, and the getter then returns \<open>v\<close> when the kernel hands back the
    structure that was written;
  \<^item> for \<open>w\<close> outside \<open>0..255\<close> both throw \<^verbatim>\<open>invalid_argument\<close> before any system call;
  \<^item> \<^verbatim>\<open>SetParity\<close> and \<^verbatim>\<open>SetNumberOfStopBits\<close> given a value outside their domain throw
    \<^verbatim>\<open>invalid_argument\<close> after the settings read; \<^verbatim>\<open>SetFlowControl\<close> does so after its
    flush and settings read have succeeded, and throws \<^verbatim>\<open>OpenFailed\<close> when the flush
    fails; none of the three ever issues a settings write for such a value;
  \<^item> \<^verbatim>\<open>SetBaudRate\<close> and \<^verbatim>\<open>SetCharacterSize\<close> never throw \<^verbatim>\<open>invalid_argument\<close>: a rate
    that \<^verbatim>\<open>cfsetspeed\<close> rejects is a \<^verbatim>\<open>runtime_error\<close>, thrown before any settings write.
\<close>

theorem setters_validate:
  assumes "IsOpen s"
    and "os_tcgetattr os (mFileDescriptor s) (kernel s) = (Some t, k1)"
    and "os_tcsetattr os (mFileDescriptor s) (t\<lparr>c_cc := (c_cc t)(VMIN := word_of_int v)\<rparr>) k1
           = (rm, km)"
    and "os_tcsetattr os (mFileDescriptor s) (t\<lparr>c_cc := (c_cc t)(VTIME := word_of_int v)\<rparr>) k1
           = (rt, kt)"
    and "os_tcflush os (mFileDescriptor s) TCIOFLUSH (kernel s) = (rf, kf)"
    and "os_tcgetattr os (mFileDescriptor s) kf = (gf, kg)"
    and "os_cfsetspeed os t b = (rb, tb)"
  shows
    "(0 \<le> v \<and> v \<le> 255 \<and> 0 \<le> rm \<and>
      fst (os_tcgetattr os (mFileDescriptor s) km)
        = Some (t\<lparr>c_cc := (c_cc t)(VMIN := word_of_int v)\<rparr>) \<longrightarrow>
        fst (SetVMin os v s) = Inr () \<and> fst (GetVMin os (snd (SetVMin os v s))) = Inr v) \<and>
     (0 \<le> v \<and> v \<le> 255 \<and> 0 \<le> rt \<and>
      fst (os_tcgetattr os (mFileDescriptor s) kt)
        = Some (t\<lparr>c_cc := (c_cc t)(VTIME := word_of_int v)\<rparr>) \<longrightarrow>
        fst (SetVTime os v s) = Inr () \<and> fst (GetVTime os (snd (SetVTime os v s))) = Inr v) \<and>
     (w < 0 \<or> 255 < w \<longrightarrow>
        SetVMin os w s = (Inl invalid_argument, s) \<and>
        SetVTime os w s = (Inl invalid_argument, s)) \<and>
     SetParity os PARITY_INVALID s =
       (Inl invalid_argument,
        s\<lparr>kernel := k1, trace := trace s @ [SYS_tcgetattr (mFileDescriptor s)]\<rparr>) \<and>
     SetNumberOfStopBits os STOP_BITS_INVALID s =
       (Inl invalid_argument,
        s\<lparr>kernel := k1, trace := trace s @ [SYS_tcgetattr (mFileDescriptor s)]\<rparr>) \<and>
     (0 \<le> rf \<and> gf \<noteq> None \<longrightarrow>
        SetFlowControl os FLOW_CONTROL_INVALID s =
          (Inl invalid_argument,
           s\<lparr>kernel := kg,
             trace := trace s @ [SYS_tcflush (mFileDescriptor s) TCIOFLUSH,
                                 SYS_tcgetattr (mFileDescriptor s)]\<rparr>)) \<and>
     (rf < 0 \<longrightarrow> fst (SetFlowControl os FLOW_CONTROL_INVALID s) = Inl OpenFailed) \<and>
     settings_writes (snd (SetFlowControl os FLOW_CONTROL_INVALID s')) = settings_writes s' \<and>
     settings_writes (snd (SetParity os PARITY_INVALID s')) = settings_writes s' \<and>
     settings_writes (snd (SetNumberOfStopBits os STOP_BITS_INVALID s')) = settings_writes s' \<and>
     fst (SetBaudRate os b' s') \<noteq> Inl invalid_argument \<and>
     fst (SetCharacterSize os cs s') \<noteq> Inl invalid_argument \<and>
     (rb < 0 \<longrightarrow>
        SetBaudRate os b s =
          (Inl runtime_error,
           s\<lparr>kernel := k1, trace := trace s @ [SYS_tcgetattr (mFileDescriptor s)]\<rparr>))"
proof -
  have vmin: "0 \<le> v \<and> v \<le> 255 \<and> 0 \<le> rm \<and>
      fst (os_tcgetattr os (mFileDescriptor s) km)
        = Some (t\<lparr>c_cc := (c_cc t)(VMIN := word_of_int v)\<rparr>) \<longrightarrow>
        fst (SetVMin os v s) = Inr () \<and> fst (GetVMin os (snd (SetVMin os v s))) = Inr v"
    using assms(1,2,3)
    by (cases "os_tcgetattr os (mFileDescriptor s) km")
      (auto simp: SetVMin_def GetVMin_def sys_tcgetattr_def sys_tcsetattr_def issue_def
        IsOpen_def uint_word_of_int)
  have vtime: "0 \<le> v \<and> v \<le> 255 \<and> 0 \<le> rt \<and>
      fst (os_tcgetattr os (mFileDescriptor s) kt)
        = Some (t\<lparr>c_cc := (c_cc t)(VTIME := word_of_int v)\<rparr>) \<longrightarrow>
        fst (SetVTime os v s) = Inr () \<and> fst (GetVTime os (snd (SetVTime os v s))) = Inr v"
    using assms(1,2,4)
    by (cases "os_tcgetattr os (mFileDescriptor s) kt")
      (auto simp: SetVTime_def GetVTime_def sys_tcgetattr_def sys_tcsetattr_def issue_def
        IsOpen_def uint_word_of_int)
  have range: "w < 0 \<or> 255 < w \<longrightarrow>
        SetVMin os w s = (Inl invalid_argument, s) \<and>
        SetVTime os w s = (Inl invalid_argument, s)"
    using assms(1) by (auto simp: SetVMin_def SetVTime_def)
  have par: "SetParity os PARITY_INVALID s =
       (Inl invalid_argument,
        s\<lparr>kernel := k1, trace := trace s @ [SYS_tcgetattr (mFileDescriptor s)]\<rparr>)"
    using assms(1,2) by (simp add: SetParity_def sys_tcgetattr_def issue_def)
  have stop: "SetNumberOfStopBits os STOP_BITS_INVALID s =
       (Inl invalid_argument,
        s\<lparr>kernel := k1, trace := trace s @ [SYS_tcgetattr (mFileDescriptor s)]\<rparr>)"
    using assms(1,2) by (simp add: SetNumberOfStopBits_def sys_tcgetattr_def issue_def)
  have flow: "0 \<le> rf \<and> gf \<noteq> None \<longrightarrow>
        SetFlowControl os FLOW_CONTROL_INVALID s =
          (Inl invalid_argument,
           s\<lparr>kernel := kg,
             trace := trace s @ [SYS_tcflush (mFileDescriptor s) TCIOFLUSH,
                                 SYS_tcgetattr (mFileDescriptor s)]\<rparr>)"
    using assms(1,5,6)
    by (auto simp: SetFlowControl_def sys_tcflush_def sys_tcgetattr_def issue_def)
  have flowfail: "rf < 0 \<longrightarrow> fst (SetFlowControl os FLOW_CONTROL_INVALID s) = Inl OpenFailed"
    using assms(1,5) by (simp add: SetFlowControl_def sys_tcflush_def issue_def)
  have baud: "fst (SetBaudRate os b' s') \<noteq> Inl invalid_argument"
    using SetBaudRate_errors [of os b' s'] by auto
  have csize: "fst (SetCharacterSize os cs s') \<noteq> Inl invalid_argument"
    using SetCharacterSize_errors [of os cs s'] by auto
  have reject: "rb < 0 \<longrightarrow>
        SetBaudRate os b s =
          (Inl runtime_error,
           s\<lparr>kernel := k1, trace := trace s @ [SYS_tcgetattr (mFileDescriptor s)]\<rparr>)"
    using assms(1,2,7) by (simp add: SetBaudRate_def sys_tcgetattr_def issue_def)
  show ?thesis
    using vmin vtime range par stop flow flowfail baud csize reject
      no_write_SetFlowControl [of os s'] no_write_SetParity [of os s']
      no_write_SetNumberOfStopBits [of os s']
    by blast
qed

theorem setters_validate_witness:
  "IsOpen (opened (idle [])) \<and>
   fst (SetVMin loopback 7 (opened (idle []))) = Inr () \<and>
   fst (GetVMin loopback (snd (SetVMin loopback 7 (opened (idle []))))) = Inr 7 \<and>
   fst (SetVTime loopback 255 (opened (idle []))) = Inr () \<and>
   fst (GetVTime loopback (snd (SetVTime loopback 255 (opened (idle []))))) = Inr 255 \<and>
   SetVMin loopback (- 1) (opened (idle [])) = (Inl invalid_argument, opened (idle [])) \<and>
   SetVMin loopback 256 (opened (idle [])) = (Inl invalid_argument, opened (idle [])) \<and>
   SetVTime loopback (- 1) (opened (idle [])) = (Inl invalid_argument, opened (idle [])) \<and>
   SetVTime loopback 256 (opened (idle [])) = (Inl invalid_argument, opened (idle [])) \<and>
   fst (SetParity loopback PARITY_INVALID (opened (idle []))) = Inl invalid_argument \<and>
   fst (SetNumberOfStopBits loopback STOP_BITS_INVALID (opened (idle []))) = Inl invalid_argument \<and>
   fst (SetFlowControl loopback FLOW_CONTROL_INVALID (opened (idle []))) = Inl invalid_argument \<and>
   fst (SetFlowControl flush_fails FLOW_CONTROL_INVALID (opened (idle []))) = Inl OpenFailed \<and>
   fst (SetBaudRate loopback BAUD_INVALID (opened (idle []))) = Inl runtime_error"
  using
    setters_validate [where s = "opened (idle [])" and os = loopback and t = termios_zero
      and ?k1.0 = "idle []" and v = 7 and rm = 0
      and km = "(idle [])\<lparr>sim_termios := termios_zero\<lparr>c_cc := (c_cc termios_zero)(VMIN := 7)\<rparr>\<rparr>"
      and rt = 0
      and kt = "(idle [])\<lparr>sim_termios := termios_zero\<lparr>c_cc := (c_cc termios_zero)(VTIME := 7)\<rparr>\<rparr>"
      and rf = 0 and kf = "idle []" and gf = "Some termios_zero" and kg = "idle []"
      and b = BAUD_INVALID and rb = "- 1" and tb = termios_zero and w = 256]
    setters_validate [where s = "opened (idle [])" and os = loopback and t = termios_zero
      and ?k1.0 = "idle []" and v = 255 and rm = 0
      and km = "(idle [])\<lparr>sim_termios := termios_zero\<lparr>c_cc := (c_cc termios_zero)(VMIN := 255)\<rparr>\<rparr>"
      and rt = 0
      and kt = "(idle [])\<lparr>sim_termios := termios_zero\<lparr>c_cc := (c_cc termios_zero)(VTIME := 255)\<rparr>\<rparr>"
      and rf = 0 and kf = "idle []" and gf = "Some termios_zero" and kg = "idle []"
      and b = BAUD_INVALID and rb = "- 1" and tb = termios_zero and w = "- 1"]
    setters_validate [where s = "opened (idle [])" and os = flush_fails and t = termios_zero
      and ?k1.0 = "idle []" and v = 7 and rm = 0
      and km = "(idle [])\<lparr>sim_termios := termios_zero\<lparr>c_cc := (c_cc termios_zero)(VMIN := 7)\<rparr>\<rparr>"
      and rt = 0
      and kt = "(idle [])\<lparr>sim_termios := termios_zero\<lparr>c_cc := (c_cc termios_zero)(VTIME := 7)\<rparr>\<rparr>"
      and rf = "- 1" and kf = "idle []" and gf = "Some termios_zero" and kg = "idle []"
      and b = BAUD_INVALID and rb = "- 1" and tb = termios_zero and w = 256]
  by (simp add: sim_defs flush_fails_def sim_setspeed_def BAUD_INVALID_def CBAUD_def
      TCIOFLUSH_def TCOFLUSH_def)

text \<open>
  The claim as stated promises \<^verbatim>\<open>InvalidArgument\<close> from every setter given an invalid
  value. \<^verbatim>\<open>SetBaudRate(BAUD_INVALID)\<close> on an open port, where the speed function rejects
  the rate, throws \<^verbatim>\<open>runtime_error\<close>.
\<close>

theorem SetBaudRate_invalid_counterexample:
  "IsOpen (opened (idle [])) \<and>
   fst (os_cfsetspeed loopback termios_zero BAUD_INVALID) = - 1 \<and>
   fst (SetBaudRate loopback BAUD_INVALID (opened (idle []))) = Inl runtime_error \<and>
   Inl runtime_error \<noteq> (Inl invalid_argument :: error + unit)"
  by (simp add: SetBaudRate_def sys_tcgetattr_def issue_def sim_defs sim_setspeed_def
      BAUD_INVALID_def CBAUD_def)

section \<open>The putback slot across Close and Open\<close>

text \<open>No configuration operation touches a data member of the object.\<close>

lemma and_then_keeps:
  assumes "\<And>s. P (snd (m s)) = P s" and "\<And>a s. P (snd (f a s)) = P s"
  shows "P (snd (and_then m f s)) = P s"
proof (cases "m s")
  case (Pair r s1)
  have "P s1 = P s" using assms(1) [of s] Pair by simp
  then show ?thesis
    using Pair assms(2) by (cases r) (simp_all add: and_then_def)
qed

lemma members_issue [simp]: "members (issue c k s) = members s"
  by (simp add: members_def issue_def)

lemma members_sys:
  "sys_tcgetattr os fd s = (ro, s1) \<Longrightarrow> members s1 = members s"
  "sys_tcsetattr os fd t s = (r, s1) \<Longrightarrow> members s1 = members s"
  "sys_tcflush os fd q s = (r, s1) \<Longrightarrow> members s1 = members s"
  "sys_fcntl_getfl os fd s = (r, s1) \<Longrightarrow> members s1 = members s"
  "sys_fcntl_setfl os fd fl s = (r, s1) \<Longrightarrow> members s1 = members s"
  "sys_close os fd s = (r, s1) \<Longrightarrow> members s1 = members s"
  "sys_open os path fl s = (r, s1) \<Longrightarrow> members s1 = members s"
  by (auto simp: sys_tcgetattr_def sys_tcsetattr_def sys_tcflush_def sys_fcntl_getfl_def
      sys_fcntl_setfl_def sys_close_def sys_open_def split: prod.splits)

lemma members_SetBaudRate: "members (snd (SetBaudRate os b s)) = members s"
  by (auto simp: SetBaudRate_def split: prod.splits option.splits dest!: members_sys)

lemma members_SetCharacterSize: "members (snd (SetCharacterSize os cs s)) = members s"
  by (auto simp: SetCharacterSize_def Let_def split: prod.splits option.splits dest!: members_sys)

lemma members_SetFlowControl: "members (snd (SetFlowControl os fc s)) = members s"
  by (cases fc) (auto simp: SetFlowControl_def split: prod.splits option.splits dest!: members_sys)

lemma members_SetParity: "members (snd (SetParity os p s)) = members s"
  by (cases p) (auto simp: SetParity_def split: prod.splits option.splits dest!: members_sys)

lemma members_SetNumberOfStopBits: "members (snd (SetNumberOfStopBits os sb s)) = members s"
  by (cases sb)
    (auto simp: SetNumberOfStopBits_def split: prod.splits option.splits dest!: members_sys)

lemma members_SetVMin: "members (snd (SetVMin os v s)) = members s"
  by (auto simp: SetVMin_def Let_def split: prod.splits option.splits dest!: members_sys)

lemma members_SetVTime: "members (snd (SetVTime os v s)) = members s"
  by (auto simp: SetVTime_def Let_def split: prod.splits option.splits dest!: members_sys)

lemma members_FlushIOBuffers: "members (snd (FlushIOBuffers os s)) = members s"
  by (auto simp: FlushIOBuffers_def split: prod.splits dest!: members_sys)

lemma members_SetPortBlockingStatus:
  "members (snd (SetPortBlockingStatus os b s)) = members s"
  by (auto simp: SetPortBlockingStatus_def split: prod.splits dest!: members_sys)


lemmas members_setters = members_SetBaudRate members_SetCharacterSize members_SetFlowControl
  members_SetParity members_SetNumberOfStopBits members_SetVMin members_SetVTime
  members_FlushIOBuffers members_SetPortBlockingStatus

lemma members_default_chain:
  "members (snd (and_then (SetBaudRate os b) (\<lambda>_.
                 and_then (SetCharacterSize os cs) (\<lambda>_.
                 and_then (SetFlowControl os fc) (\<lambda>_.
                 and_then (SetParity os p) (\<lambda>_.
                 and_then (SetNumberOfStopBits os sb) (\<lambda>_.
                 and_then (SetVMin os vm) (\<lambda>_.
                 SetVTime os vt)))))) s)) = members s"
  by (intro and_then_keeps members_setters)

lemma members_SetParametersToDefault:
  "members (snd (SetParametersToDefault os s)) = members s"
  by (auto simp: SetParametersToDefault_def Let_def members_default_chain
      split: prod.splits option.splits dest!: members_sys)

lemma members_InitializeSerialPort:
  "members (snd (InitializeSerialPort os s)) = members s"
proof (cases "IsOpen s")
  case False
  then show ?thesis by (simp add: InitializeSerialPort_def)
next
  case True
  have "members (snd (and_then (SetParametersToDefault os) (\<lambda>_.
                      and_then (FlushIOBuffers os) (\<lambda>_.
                      SetPortBlockingStatus os True)) s)) = members s"
    by (intro and_then_keeps members_setters members_SetParametersToDefault)
  with True show ?thesis by (simp add: InitializeSerialPort_def)
qed

lemma members_open_tail:
  "members (snd (and_then (FlushIOBuffers os) (\<lambda>_. InitializeSerialPort os) s)) = members s"
  by (intro and_then_keeps members_setters members_InitializeSerialPort)

lemma PutbackSlot_members: "members s = members s' \<Longrightarrow> PutbackSlot s = PutbackSlot s'"
  by (simp add: members_def PutbackSlot_def)

lemma PutbackSlot_sys:
  "sys_tcgetattr os fd s = (ro, s1) \<Longrightarrow> PutbackSlot s1 = PutbackSlot s"
  "sys_tcsetattr os fd t s = (r, s1) \<Longrightarrow> PutbackSlot s1 = PutbackSlot s"
  "sys_close os fd s = (r, s1) \<Longrightarrow> PutbackSlot s1 = PutbackSlot s"
  "sys_open os path fl s = (r, s1) \<Longrightarrow> PutbackSlot s1 = PutbackSlot s"
  by (auto dest!: members_sys PutbackSlot_members)

lemma fd_sys:
  "sys_tcgetattr os fd s = (ro, s1) \<Longrightarrow> mFileDescriptor s1 = mFileDescriptor s"
  "sys_tcsetattr os fd t s = (r, s1) \<Longrightarrow> mFileDescriptor s1 = mFileDescriptor s"
  "sys_close os fd s = (r, s1) \<Longrightarrow> mFileDescriptor s1 = mFileDescriptor s"
  by (auto dest!: members_sys simp: members_def)

lemma PutbackSlot_update [simp]:
  "PutbackSlot (s\<lparr>mFileDescriptor := fd\<rparr>) = PutbackSlot s"
  "PutbackSlot (s\<lparr>mOldPortSettings := t\<rparr>) = PutbackSlot s"
  by (simp_all add: PutbackSlot_def)

lemma Open_PutbackSlot: "PutbackSlot (snd (Open os filename openMode s)) = PutbackSlot s"
proof -
  have tail: "\<And>s4. PutbackSlot (snd (and_then (FlushIOBuffers os) (\<lambda>_. InitializeSerialPort os) s4))
              = PutbackSlot s4"
    by (rule PutbackSlot_members [OF members_open_tail])
  show ?thesis
    by (auto simp: Open_def Let_def tail split: prod.splits option.splits dest!: PutbackSlot_sys)
qed

lemma Open_opens:
  assumes "Open os filename openMode s = (Inr (), s2)"
    and "openMode = {ios_in, ios_out} \<or> openMode = {ios_in} \<or> openMode = {ios_out}"
  shows "IsOpen s2"
proof -
  have tail: "mFileDescriptor s5 = mFileDescriptor s4"
    if "and_then (FlushIOBuffers os) (\<lambda>_. InitializeSerialPort os) s4 = (r, s5)" for s4 s5 r
    using members_open_tail [of os s4] that by (simp add: members_def)
  have "0 \<le> mFileDescriptor s2"
    using assms
    by (auto simp: Open_def Let_def split: prod.splits option.splits if_splits
        dest!: fd_sys tail)
  then show ?thesis by (auto simp: IsOpen_def)
qed

lemma Close_frame:
  "PutbackSlot (snd (Close os s)) = PutbackSlot s \<and>
   mOldPortSettings (snd (Close os s)) = mOldPortSettings s"
  by (auto simp: Close_def PutbackSlot_def split: prod.splits dest!: members_sys
      simp: members_def)

text \<open>A session on the simulated device: close with the byte 65 pending, then reopen.\<close>

lemmas op_defs = Open_def Close_def FlushIOBuffers_def InitializeSerialPort_def
  SetParametersToDefault_def SetBaudRate_def SetCharacterSize_def SetFlowControl_def
  SetParity_def SetNumberOfStopBits_def SetVMin_def SetVTime_def SetPortBlockingStatus_def
  and_then_def

lemmas sys_defs = sys_open_def sys_close_def sys_read_def sys_write_def sys_tcgetattr_def
  sys_tcsetattr_def sys_tcflush_def sys_fcntl_getfl_def sys_fcntl_setfl_def
  sys_ioctl_fionread_def issue_def

lemmas const_defs = BAUD_DEFAULT_def BAUD_115200_def B115200_def CHAR_SIZE_DEFAULT_def
  CHAR_SIZE_8_def CS8_def FLOW_CONTROL_DEFAULT_def PARITY_DEFAULT_def STOP_BITS_DEFAULT_def
  VMIN_DEFAULT_def VTIME_DEFAULT_def CBAUD_def sim_setspeed_def TCIOFLUSH_def TCOFLUSH_def

lemma close_run:
  "Close loopback (pending 65 (idle [66])) =
     (Inr (), (pending 65 (idle [66]))
        \<lparr>mFileDescriptor := - 1,
         trace := [SYS_tcsetattr 3 termios_zero, SYS_close 3]\<rparr>)"
  by (simp add: Close_def sys_defs sim_defs)

lemma open_run:
  "fst (Open loopback ''/dev/ttyS0'' {ios_in, ios_out}
         ((pending 65 (idle [66]))
            \<lparr>mFileDescriptor := - 1,
             trace := [SYS_tcsetattr 3 termios_zero, SYS_close 3]\<rparr>)) = Inr ()"
  by (simp add: op_defs sys_defs sim_defs const_defs Let_def)


text \<open>
  C10. \<^verbatim>\<open>Close\<close> and \<^verbatim>\<open>Open\<close> leave the putback slot as it is, whatever their outcome;
  of the object's members \<^verbatim>\<open>Close\<close> assigns the file descriptor only.
  Hence, if a putback byte is pending when \<^verbatim>\<open>Close\<close> succeeds and the port is then opened
  again with one of the three supported modes, the reopened port still has that byte
  pending, and the first \<^verbatim>\<open>underflow\<close> returns it without any system call.
\<close>

theorem putback_survives_reopen:
  assumes "mPutbackAvailable s"
    and "Close os s = (Inr (), s1)"
    and "openMode = {ios_in, ios_out} \<or> openMode = {ios_in} \<or> openMode = {ios_out}"
    and "Open os filename openMode s1 = (Inr (), s2)"
  shows "PutbackSlot (snd (Close os s')) = PutbackSlot s' \<and>
         mOldPortSettings (snd (Close os s')) = mOldPortSettings s' \<and>
         PutbackSlot (snd (Open os filename' openMode' s')) = PutbackSlot s' \<and>
         \<not> IsOpen s1 \<and> PutbackSlot s1 = PutbackSlot s \<and>
         IsOpen s2 \<and> PutbackSlot s2 = PutbackSlot s \<and>
         underflow os s2 = (Inr (to_int_type (mPutbackChar s)), s2)"
proof -
  have c: "PutbackSlot s1 = PutbackSlot s"
    using Close_frame [of os s] assms(2) by simp
  have closed: "\<not> IsOpen s1"
    using assms(2) by (auto simp: Close_def IsOpen_def split: if_splits prod.splits)
  have o: "PutbackSlot s2 = PutbackSlot s1"
    using Open_PutbackSlot [of os filename openMode s1] assms(4) by simp
  have op: "IsOpen s2" using Open_opens [OF assms(4) assms(3)] .
  have "mPutbackAvailable s2 \<and> mPutbackChar s2 = mPutbackChar s"
    using c o assms(1) by (simp add: PutbackSlot_def)
  then have "underflow os s2 = (Inr (to_int_type (mPutbackChar s)), s2)"
    using op by (simp add: underflow_def)
  with c closed o op Close_frame [of os s'] Open_PutbackSlot [of os filename' openMode' s']
  show ?thesis by simp
qed

theorem putback_survives_reopen_witness:
  "mPutbackAvailable (pending 65 (idle [66])) \<and>
   fst (Close loopback (pending 65 (idle [66]))) = Inr () \<and>
   fst (Open loopback ''/dev/ttyS0'' {ios_in, ios_out}
         (snd (Close loopback (pending 65 (idle [66]))))) = Inr () \<and>
   fst (underflow loopback
         (snd (Open loopback ''/dev/ttyS0'' {ios_in, ios_out}
                (snd (Close loopback (pending 65 (idle [66]))))))) = Inr 65"
proof -
  let ?s = "pending 65 (idle [66]) :: sim machine"
  let ?s1 = "snd (Close loopback ?s)"
  let ?s2 = "snd (Open loopback ''/dev/ttyS0'' {ios_in, ios_out} ?s1)"
  have p: "mPutbackAvailable ?s" by (simp add: sim_defs)
  have c: "Close loopback ?s = (Inr (), ?s1)" using close_run by simp
  have m: "{ios_in, ios_out} = {ios_in, ios_out} \<or> {ios_in, ios_out} = {ios_in} \<or>
           {ios_in, ios_out} = {ios_out}" by simp
  have opened: "fst (Open loopback ''/dev/ttyS0'' {ios_in, ios_out} ?s1) = Inr ()"
    using open_run close_run by simp
  then have o: "Open loopback ''/dev/ttyS0'' {ios_in, ios_out} ?s1 = (Inr (), ?s2)"
    by (simp add: prod_eq_iff)
  have cf: "fst (Close loopback ?s) = Inr ()" using close_run by simp
  have "underflow loopback ?s2 = (Inr (to_int_type (mPutbackChar ?s)), ?s2)"
    using putback_survives_reopen [OF p c m o, where s' = "?s" and filename' = "''/dev/ttyS0''"
        and openMode' = "{ios_in, ios_out}"]
    by blast
  moreover have "to_int_type (mPutbackChar ?s) = 65"
    by (simp add: pending_def to_int_type_def)
  ultimately have "fst (underflow loopback ?s2) = Inr 65" by simp
  with p cf opened show ?thesis by blast
qed

end
